theory Spec2Isabelle
  imports Complex_Main "HOL-Library.Multiset"
begin

section \<open>Units and quantities\<close>

text \<open>
  An astropy unit is modelled by its physical dimension and its scale relative to the
  base unit of that dimension: Angstrom for lengths, erg/s/cm2/A for flux densities,
  erg/s/cm2 for fluxes. \<open>unit_to u v\<close> is the factor of \<open>u.to(v)\<close>; it is \<open>None\<close> where
  astropy raises because the dimensions differ.  Floating-point numbers are modelled
  by the real numbers.
\<close>

datatype dimension = Length | FluxDensity | Flux | Dimensionless

datatype units = Units dimension real

fun unit_dim :: "units \<Rightarrow> dimension" where
  "unit_dim (Units d k) = d"

fun unit_scale :: "units \<Rightarrow> real" where
  "unit_scale (Units d k) = k"

definition unit_to :: "units \<Rightarrow> units \<Rightarrow> real option" where
  "unit_to u v =
     (if unit_dim u = unit_dim v \<and> 0 < unit_scale u \<and> 0 < unit_scale v
      then Some (unit_scale u / unit_scale v) else None)"

definition AA :: units where
  "AA = Units Length 1"

definition um :: units where
  "um = Units Length 10000"

definition flam :: units where
  "flam = Units FluxDensity 1"

definition erg_s_cm2 :: units where
  "erg_s_cm2 = Units Flux 1"

type_synonym qarray = "real list \<times> units"

section \<open>Errors\<close>

text \<open>
  Every \<open>raise\<close> of the source is a value of \<open>error\<close>.  The constructors name the
  exception and where it is raised:
  \<^item> \<open>ShapeTypeError\<close>: TypeError "Wavelength, flux and uncertainty arrays must be the
    same shape." (\<open>Spectrum.__init__\<close>);
  \<^item> \<open>WaveTypeError\<close>, \<open>FluxTypeError\<close>, \<open>UncTypeError\<close>: the unit checks of
    \<open>Spectrum.__init__\<close>;
  \<^item> \<open>WaveUnitsTypeError\<close>, \<open>FluxUnitsTypeError\<close>: the unit setters;
  \<^item> \<open>IntegralTypeError\<close>: \<open>Spectrum.integral\<close>;
  \<^item> \<open>MagTypeError\<close>: TypeError "Magnitude and uncertainty must be floats."
    (\<open>SED.add_photometry\<close>);
  \<^item> \<open>NoneTypeError\<close>: subscripting \<open>None\<close>; \<open>AttributeError\<close>: a missing attribute;
  \<^item> \<open>IndexError\<close>: an index out of range;
  \<^item> \<open>EmptyValueError\<close>: \<open>min()\<close> of an empty sequence;
    \<open>GradientValueError\<close>: \<open>np.gradient\<close> of fewer than two samples;
    \<open>ShapeValueError\<close>: operands that cannot be broadcast together;
    \<open>InterpValueError\<close>: \<open>np.interp\<close> on empty or unequal sample arrays;
  \<^item> \<open>UnitConversionError\<close>: astropy's failure to convert between dimensions;
  \<^item> \<open>LookupError\<close>: a collaborator outside the sources failed;
  \<^item> \<open>NotFinite\<close>: numpy would go on with inf or nan (a division by zero, the
    logarithm of a non-positive number), which the real numbers do not represent.
\<close>

datatype error =
    ShapeTypeError | WaveTypeError | FluxTypeError | UncTypeError
  | WaveUnitsTypeError | FluxUnitsTypeError | IntegralTypeError | MagTypeError
  | NoneTypeError | AttributeError | IndexError
  | EmptyValueError | GradientValueError | ShapeValueError | InterpValueError
  | UnitConversionError | LookupError | NotFinite

section \<open>numpy helpers\<close>

text \<open>\<open>a[idx]\<close> for an index array: IndexError when an index is out of range.\<close>

definition pick :: "'a list \<Rightarrow> nat list \<Rightarrow> error + 'a list" where
  "pick xs idx =
     (if list_all (\<lambda>i. i < length xs) idx then Inr (map (\<lambda>i. xs ! i) idx)
      else Inl IndexError)"

text \<open>\<open>np.where(mask)[0]\<close>: the indices at which the mask holds.\<close>

definition np_where :: "(nat \<Rightarrow> bool) \<Rightarrow> nat \<Rightarrow> nat list" where
  "np_where P n = filter P [0..<n]"

text \<open>
  Python's \<open>any(idx)\<close> on an array of indices: true when some index is non-zero
  (the index 0 is falsy).
\<close>

definition any_idx :: "nat list \<Rightarrow> bool" where
  "any_idx idx = list_ex (\<lambda>i. i \<noteq> 0) idx"

section \<open>The Spectrum object\<close>

text \<open>
  \<open>wave\<close>, \<open>flux\<close> and \<open>unc\<close> are what the properties \<open>self.wave\<close>, \<open>self.flux\<close> and
  \<open>self.unc\<close> return: the wavelengths in the current wavelength unit, the flux table
  and the uncertainty table.  The pysynphot base class is taken as a plain container
  of the two tables it is given, whose \<open>convert\<close> re-expresses the wavelengths in the
  requested unit.  \<open>self.units\<close> is always assigned together with the two unit fields,
  so it is the derived list \<open>units_of\<close>.  \<open>components\<close> holds the store addresses of
  the two component objects.
\<close>

record spectrum =
  name :: "string option"
  verbose :: bool
  wave :: "real list"
  flux :: "real list"
  unc :: "real list"
  wave_units :: units
  flux_units :: units
  wmin :: real
  wmax :: real
  components :: "(nat \<times> nat) option"

definition units_of :: "spectrum \<Rightarrow> units list" where
  "units_of s = [wave_units s, flux_units s, flux_units s]"

text \<open>The property \<open>spectrum\<close>: the three arrays with their units.\<close>

definition spectrum_q :: "spectrum \<Rightarrow> qarray \<times> qarray \<times> qarray" where
  "spectrum_q s = ((wave s, wave_units s), (flux s, flux_units s), (unc s, flux_units s))"

subsection \<open>The unit setters\<close>

text \<open>
  A setter mutates the object; the model returns the object as the setter leaves it,
  together with the error it raised, if any.  In \<open>wave_units.setter\<close> the wavelengths
  are converted first (\<open>self.convert\<close>), then \<open>min\<close> and \<open>max\<close> are read through
  \<open>self.spectrum\<close>, which still carries the old unit, and converted once more.
\<close>

definition set_wave_units :: "spectrum \<Rightarrow> units \<Rightarrow> spectrum \<times> error option" where
  "set_wave_units s wu =
     (case unit_to wu um of
        None \<Rightarrow> (s, Some WaveUnitsTypeError)
      | Some _ \<Rightarrow>
          (case unit_to (wave_units s) wu of
             None \<Rightarrow> (s, Some UnitConversionError)
           | Some k \<Rightarrow>
               let w = map (\<lambda>x. x * k) (wave s); s1 = s\<lparr>wave := w\<rparr> in
               if w = [] then (s1, Some EmptyValueError)
               else (s1\<lparr>wmin := Min (set w) * k, wmax := Max (set w) * k,
                        wave_units := wu\<rparr>, None)))"

definition set_flux_units :: "spectrum \<Rightarrow> units \<Rightarrow> spectrum \<times> error option" where
  "set_flux_units s fu =
     (case unit_to fu flam of
        None \<Rightarrow> (s, Some FluxUnitsTypeError)
      | Some _ \<Rightarrow>
          (case unit_to (flux_units s) fu of
             None \<Rightarrow> (s, Some UnitConversionError)
           | Some k \<Rightarrow>
               (s\<lparr>flux := map (\<lambda>x. x * k) (flux s), unc := map (\<lambda>x. x * k) (unc s),
                   flux_units := fu\<rparr>, None)))"

subsection \<open>The constructor\<close>

record spectrum_args =
  a_wave :: qarray
  a_flux :: qarray
  a_unc :: "qarray option"
  a_snr :: real
  a_snr_trim :: "real option"
  a_trim :: "(real \<times> real) list"
  a_name :: "string option"
  a_verbose :: bool

text \<open>
  The keyword defaults of \<open>Spectrum.__init__\<close>.  \<open>a_snr_trim\<close> is \<open>None\<close> for a value
  that is neither a float nor an int; the windows of \<open>a_trim\<close> are given in Angstrom.
\<close>

definition default_args :: "qarray \<Rightarrow> qarray \<Rightarrow> qarray option \<Rightarrow> spectrum_args" where
  "default_args w f u =
     \<lparr>a_wave = w, a_flux = f, a_unc = u, a_snr = 10, a_snr_trim = Some 5,
      a_trim = [], a_name = None, a_verbose = False\<rparr>"

text \<open>The guard of line 108: when it raises.\<close>

definition shape_mismatch :: "nat \<Rightarrow> nat \<Rightarrow> nat option \<Rightarrow> bool" where
  "shape_mismatch nw nf nu =
     (nw \<noteq> nf \<and> (case nu of None \<Rightarrow> True | Some n \<Rightarrow> n \<noteq> nf))"

text \<open>
  Modelled from the spec: \<open>utilities.scrub\<close> is not among the sources.  The spec says
  that entries with non-positive or non-finite value, or non-finite uncertainty, are
  dropped.  Over the reals every number is finite, so the samples kept are those of
  positive flux; \<open>finite_unc\<close> is false when every uncertainty is non-finite (the
  default \<open>flux/snr\<close> with \<open>snr = 0\<close>).  Each array is indexed by the kept positions.
\<close>

definition scrub_keep :: "bool \<Rightarrow> real list \<Rightarrow> nat list" where
  "scrub_keep finite_unc fl = (if finite_unc then np_where (\<lambda>i. 0 < fl ! i) (length fl) else [])"

definition pick3 ::
  "real list \<times> real list \<times> real list \<Rightarrow> nat list \<Rightarrow> error + (real list \<times> real list \<times> real list)" where
  "pick3 d idx =
     (case d of (w, f, u) \<Rightarrow>
        (case pick w idx of Inl e \<Rightarrow> Inl e | Inr w' \<Rightarrow>
        (case pick f idx of Inl e \<Rightarrow> Inl e | Inr f' \<Rightarrow>
        (case pick u idx of Inl e \<Rightarrow> Inl e | Inr u' \<Rightarrow> Inr (w', f', u')))))"

definition scrub ::
  "bool \<Rightarrow> real list \<times> real list \<times> real list \<Rightarrow> error + (real list \<times> real list \<times> real list)" where
  "scrub finite_unc d = (case d of (w, f, u) \<Rightarrow> pick3 d (scrub_keep finite_unc f))"

text \<open>
  \<open>flux/unc >= snr_trim\<close> for one sample; \<open>r\<close> is the ratio of the two units' scales.
  numpy divides a positive flux by a zero uncertainty to \<open>inf\<close>, which passes.
\<close>

definition snr_ok :: "real \<Rightarrow> real \<Rightarrow> real \<Rightarrow> real \<Rightarrow> bool" where
  "snr_ok r t f u = (if u = 0 then 0 < f else t \<le> f / u * r)"

text \<open>\<open>a[lo:hi+1]\<close>.\<close>

definition slice :: "nat \<Rightarrow> nat \<Rightarrow> 'a list \<Rightarrow> 'a list" where
  "slice lo hi xs = take (Suc hi - lo) (drop lo xs)"

definition snr_trim ::
  "real \<Rightarrow> real option \<Rightarrow> real list \<times> real list \<times> real list \<Rightarrow> real list \<times> real list \<times> real list" where
  "snr_trim r st d =
     (case st of
        None \<Rightarrow> d
      | Some t \<Rightarrow>
          (case d of (w, f, u) \<Rightarrow>
             let idx = np_where (\<lambda>i. snr_ok r t (f ! i) (u ! i)) (min (length f) (length u)) in
             if any_idx idx
             then (slice (hd idx) (last idx) w, slice (hd idx) (last idx) f,
                   slice (hd idx) (last idx) u)
             else d))"

text \<open>The manual windows: the samples outside \<open>(mn, mx)\<close> are kept.\<close>

fun manual_trim ::
  "(real \<times> real) list \<Rightarrow> real list \<times> real list \<times> real list \<Rightarrow>
     error + (real list \<times> real list \<times> real list)" where
  "manual_trim [] d = Inr d"
| "manual_trim ((mn, mx) # ws) (w, f, u) =
     (let idx = np_where (\<lambda>i. w ! i < mn \<or> w ! i > mx) (length w) in
      if any_idx idx
      then (case pick3 (w, f, u) idx of Inl e \<Rightarrow> Inl e | Inr d' \<Rightarrow> manual_trim ws d')
      else manual_trim ws (w, f, u))"

text \<open>
  Line 165: \<open>np.where(flux[flux>0])\<close> are the positions \<open>0..k-1\<close> of the \<open>k\<close> positive
  fluxes (every one of them is non-zero), and each array is indexed by them.
\<close>

definition positive_prefix ::
  "real list \<times> real list \<times> real list \<Rightarrow> error + (real list \<times> real list \<times> real list)" where
  "positive_prefix d =
     (case d of (w, f, u) \<Rightarrow> pick3 d [0..<length (filter (\<lambda>x. 0 < x) f)])"

definition spectrum_init :: "spectrum_args \<Rightarrow> error + spectrum" where
  "spectrum_init a =
     (case (a_wave a, a_flux a) of ((w, wu), (f, fu)) \<Rightarrow>
      if shape_mismatch (length w) (length f) (map_option (\<lambda>q. length (fst q)) (a_unc a))
      then Inl ShapeTypeError
      else
      (case unit_to wu AA of None \<Rightarrow> Inl WaveTypeError | Some k \<Rightarrow>
      (case unit_to fu flam of None \<Rightarrow> Inl FluxTypeError | Some _ \<Rightarrow>
       let finite_unc = (case a_unc a of None \<Rightarrow> a_snr a \<noteq> 0 | Some _ \<Rightarrow> True);
           uq = (case a_unc a of None \<Rightarrow> (map (\<lambda>x. x / a_snr a) f, fu) | Some q \<Rightarrow> q)
       in
      (case unit_to (snd uq) flam of None \<Rightarrow> Inl UncTypeError | Some _ \<Rightarrow>
      (case scrub finite_unc (map (\<lambda>x. x * k) w, f, fst uq) of Inl e \<Rightarrow> Inl e | Inr d1 \<Rightarrow>
      (case manual_trim (a_trim a)
              (snr_trim (unit_scale fu / unit_scale (snd uq)) (a_snr_trim a) d1) of
         Inl e \<Rightarrow> Inl e | Inr d2 \<Rightarrow>
      (case positive_prefix d2 of Inl e \<Rightarrow> Inl e | Inr (w3, f3, u3) \<Rightarrow>
       let s0 = \<lparr>name = a_name a, verbose = a_verbose a, wave = w3, flux = f3, unc = u3,
                 wave_units = AA, flux_units = fu, wmin = 0, wmax = 0, components = None\<rparr>
       in (case set_wave_units s0 wu of
             (s, Some e) \<Rightarrow> Inl e
           | (s, None) \<Rightarrow> Inr s))))))))"

text \<open>\<open>Spectrum(*s.spectrum)\<close>: the constructor on the three arrays of \<open>s\<close>, with defaults.\<close>

definition copy_args :: "spectrum \<Rightarrow> spectrum_args" where
  "copy_args s =
     default_args (wave s, wave_units s) (flux s, flux_units s) (Some (unc s, flux_units s))"

section \<open>numpy numerics\<close>

text \<open>
  \<open>np.interp(x, xp, fp, left, right)\<close> for one abscissa.  numpy returns \<open>right\<close> (default
  \<open>fp[-1]\<close>) above the last sample point and \<open>left\<close> (default \<open>fp[0]\<close>) below the first
  one, before it searches; inside, it takes the last \<open>j\<close> with \<open>xp[j] <= x\<close> and returns
  \<open>fp[j]\<close> at a sample point and \<open>slope * (x - xp[j]) + fp[j]\<close> otherwise.  The search is
  written as a scan from the left, which finds the same \<open>j\<close> on increasing sample points
  (numpy does not check that they are).  Empty or unequal sample arrays raise ValueError.
\<close>

fun interp_in :: "real \<Rightarrow> real list \<Rightarrow> real list \<Rightarrow> real" where
  "interp_in x (x0 # x1 # xs) (y0 # y1 # ys) =
     (if x < x1 then (if x = x0 then y0 else (y1 - y0) / (x1 - x0) * (x - x0) + y0)
      else interp_in x (x1 # xs) (y1 # ys))"
| "interp_in x [x0] (y0 # ys) = y0"
| "interp_in x xp fp = 0"

definition interp1 :: "real option \<Rightarrow> real option \<Rightarrow> real list \<Rightarrow> real list \<Rightarrow> real \<Rightarrow> real" where
  "interp1 left right xp fp x =
     (if last xp < x then (case right of None \<Rightarrow> last fp | Some r \<Rightarrow> r)
      else if x < hd xp then (case left of None \<Rightarrow> hd fp | Some l \<Rightarrow> l)
      else interp_in x xp fp)"

definition interp ::
  "real list \<Rightarrow> real list \<Rightarrow> real list \<Rightarrow> real option \<Rightarrow> real option \<Rightarrow> error + real list" where
  "interp x xp fp left right =
     (if xp = [] \<or> length xp \<noteq> length fp then Inl InterpValueError
      else Inr (map (interp1 left right xp fp) x))"

text \<open>\<open>np.trapz(y, x=x)\<close>: the sum of \<open>(x[i+1] - x[i]) * (y[i+1] + y[i]) / 2\<close>.\<close>

fun trapz :: "real list \<Rightarrow> real list \<Rightarrow> real" where
  "trapz (y0 # y1 # ys) (x0 # x1 # xs) = (x1 - x0) * (y1 + y0) / 2 + trapz (y1 # ys) (x1 # xs)"
| "trapz ys xs = 0"

text \<open>
  \<open>np.gradient(x)\<close> with unit spacing: one-sided differences at the two ends, central
  differences inside; fewer than two samples raise ValueError.
\<close>

definition gradient :: "real list \<Rightarrow> error + real list" where
  "gradient x =
     (let n = length x in
      if n < 2 then Inl GradientValueError
      else Inr (map (\<lambda>i. if i = 0 then x ! 1 - x ! 0
                          else if i = n - 1 then x ! (n - 1) - x ! (n - 2)
                          else (x ! (i + 1) - x ! (i - 1)) / 2) [0..<n]))"

section \<open>Spectrum.__add__\<close>

text \<open>
  \<open>self.data\<close> is the 3-by-n array of the wavelengths, fluxes and uncertainties; the model
  keeps it as the list of its columns.  numpy cannot build the array from tables of
  different lengths.
\<close>

type_synonym col = "real \<times> real \<times> real"

definition col_w :: "col \<Rightarrow> real" where
  "col_w c = fst c"

definition col_f :: "col \<Rightarrow> real" where
  "col_f c = fst (snd c)"

definition col_u :: "col \<Rightarrow> real" where
  "col_u c = snd (snd c)"

definition data :: "spectrum \<Rightarrow> error + col list" where
  "data s =
     (if length (wave s) = length (flux s) \<and> length (flux s) = length (unc s)
      then Inr (zip (wave s) (zip (flux s) (unc s))) else Inl ShapeValueError)"

text \<open>\<open>np.any\<close> of a block of columns: some entry is non-zero.\<close>

definition np_any :: "col list \<Rightarrow> bool" where
  "np_any cs = list_ex (\<lambda>c. \<not> (col_w c = 0 \<and> col_f c = 0 \<and> col_u c = 0)) cs"

text \<open>
  The resolution \<open>s.shape[1]/(max(s[0])-min(s[0]))\<close>.  numpy divides by a zero span to
  \<open>inf\<close>, which is the value \<open>None\<close> here; \<open>res_less\<close> is \<open><\<close> on these values.
\<close>

definition resolution :: "col list \<Rightarrow> real option" where
  "resolution s =
     (let d = Max (set (map col_w s)) - Min (set (map col_w s)) in
      if d = 0 then None else Some (real (length s) / d))"

definition res_less :: "real option \<Rightarrow> real option \<Rightarrow> bool" where
  "res_less r1 r2 =
     (case r1 of None \<Rightarrow> False
      | Some a \<Rightarrow> (case r2 of None \<Rightarrow> True | Some b \<Rightarrow> a < b))"

text \<open>
  Lines 208 to 211: the two spectra are taken not to overlap when one of them is
  ascending and starts above the other's last wavelength.
\<close>

definition overlapping :: "col list \<Rightarrow> col list \<Rightarrow> bool" where
  "overlapping s1 s2 =
     (\<not> ((col_w (last s1) > col_w (hd s1) \<and> col_w (hd s1) > col_w (last s2))
         \<or> (col_w (last s2) > col_w (hd s2) \<and> col_w (hd s2) > col_w (last s1))))"

text \<open>
  Lines 237 to 252: the merged overlap.  \<open>o1\<close> and \<open>o2\<close> are exchanged when the second
  spectrum has the higher resolution; the interpolation reads the second spectrum
  \<open>s2\<close> in both cases, its fluxes against its wavelengths and its uncertainties against
  its uncertainties.
\<close>

definition merge_overlap :: "col list \<Rightarrow> col list \<Rightarrow> col list \<Rightarrow> col list \<Rightarrow> error + col list" where
  "merge_overlap s1 s2 o1 o2 =
     (let g = (if res_less (resolution s1) (resolution s2) then o2 else o1) in
      case interp (map col_w g) (map col_w s2) (map col_f s2) None None of
        Inl e \<Rightarrow> Inl e
      | Inr o2_flux \<Rightarrow>
          (case interp (map col_w g) (map col_u s2) (map col_u s2) None None of
             Inl e \<Rightarrow> Inl e
           | Inr o2_unc \<Rightarrow>
               Inr (map (\<lambda>(c, f2, u2). (col_w c, (col_f c + f2) / 2, sqrt ((col_u c)\<^sup>2 + u2\<^sup>2)))
                      (zip g (zip o2_flux o2_unc)))))"

text \<open>
  Lines 204 to 259: the stitched columns.  Without overlap the columns of both are
  sorted by wavelength.  With overlap, \<open>left\<close> and \<open>right\<close> come from the first spectrum
  and, when that block has no non-zero entry, from the second; reading \<open>left[0][-1]\<close> or
  \<open>right[0][0]\<close> of an empty block raises IndexError, as does \<open>s[0][-1]\<close> of a spectrum
  without samples.
\<close>

definition stitch :: "col list \<Rightarrow> col list \<Rightarrow> error + col list" where
  "stitch s1 s2 =
     (if s1 = [] \<or> s2 = [] then Inl IndexError
      else if \<not> overlapping s1 s2 then Inr (sort_key col_w (s1 @ s2))
      else
        let left1 = filter (\<lambda>c. col_w c \<le> col_w (hd s2)) s1;
            left = (if np_any left1 then left1 else filter (\<lambda>c. col_w c \<le> col_w (hd s1)) s2);
            right1 = filter (\<lambda>c. col_w c \<ge> col_w (last s2)) s1;
            right = (if np_any right1 then right1 else filter (\<lambda>c. col_w c \<ge> col_w (last s1)) s2)
        in
        if left = [] \<or> right = [] then Inl IndexError
        else
          let inside = (\<lambda>c. col_w c < col_w (hd right) \<and> col_w c > col_w (last left)) in
          (case merge_overlap s1 s2 (filter inside s1) (filter inside s2) of
             Inl e \<Rightarrow> Inl e
           | Inr ov \<Rightarrow> Inr (left @ ov @ right)))"

text \<open>\<open>Spectrum(*spec)\<close> for the stitched columns with the units of \<open>self\<close>.\<close>

definition stitched_args :: "spectrum \<Rightarrow> col list \<Rightarrow> spectrum_args" where
  "stitched_args s cs =
     default_args (map col_w cs, wave_units s) (map col_f cs, flux_units s)
       (Some (map col_u cs, flux_units s))"

text \<open>
  The objects live in a store, a list indexed by address; a new object is appended.
  An operation returns the store as it leaves it, also when it raises.
\<close>

type_synonym heap = "spectrum list"

definition alloc :: "heap \<Rightarrow> error + spectrum \<Rightarrow> heap \<times> (error + nat)" where
  "alloc h r = (case r of Inl e \<Rightarrow> (h, Inl e) | Inr s \<Rightarrow> (h @ [s], Inr (length h)))"

text \<open>
  \<open>a + b\<close> for the object at address \<open>a\<close> and the operand \<open>b\<close> (\<open>None\<close>, or the address of
  a spectrum).  The units of \<open>spec2\<close> are set to those of \<open>self\<close> by the two setters, which
  mutate \<open>spec2\<close>; then the columns are stitched, the new object is built, and a fresh
  copy of \<open>self\<close> and \<open>spec2\<close> itself become its components.
\<close>

definition add :: "heap \<Rightarrow> nat \<Rightarrow> nat option \<Rightarrow> heap \<times> (error + nat)" where
  "add h a b' =
     (case b' of
        None \<Rightarrow> alloc h (spectrum_init (copy_args (h ! a)))
      | Some b \<Rightarrow>
          (case set_wave_units (h ! b) (wave_units (h ! a)) of
             (s2, Some e) \<Rightarrow> (h[b := s2], Inl e)
           | (s2, None) \<Rightarrow>
          (case set_flux_units s2 (flux_units (h ! a)) of
             (s2', Some e) \<Rightarrow> (h[b := s2'], Inl e)
           | (s2', None) \<Rightarrow>
           let h1 = h[b := s2'] in
          (case data (h1 ! a) of Inl e \<Rightarrow> (h1, Inl e) | Inr d1 \<Rightarrow>
          (case data (h1 ! b) of Inl e \<Rightarrow> (h1, Inl e) | Inr d2 \<Rightarrow>
          (case stitch d1 d2 of Inl e \<Rightarrow> (h1, Inl e) | Inr cs \<Rightarrow>
          (case spectrum_init (stitched_args (h1 ! a) cs) of
             Inl e \<Rightarrow> (h1, Inl e)
           | Inr new_spec \<Rightarrow>
          (case spectrum_init (copy_args (h1 ! a)) of
             Inl e \<Rightarrow> (h1 @ [new_spec], Inl e)
           | Inr cp \<Rightarrow>
               (h1 @ [new_spec\<lparr>components := Some (Suc (length h1), b)\<rparr>, cp],
                Inr (length h1))))))))))"

text \<open>
  \<open>spec2\<close> as the two setter calls of lines 201 and 202 leave it, whether or not one
  of them raises.
\<close>

definition retarget :: "spectrum \<Rightarrow> units \<Rightarrow> units \<Rightarrow> spectrum" where
  "retarget s2 wu fu =
     (case set_wave_units s2 wu of
        (s, Some e) \<Rightarrow> s
      | (s, None) \<Rightarrow> fst (set_flux_units s fu))"

text \<open>Two objects hold the same curve: the same three arrays and the same two units.\<close>

definition same_curve :: "spectrum \<Rightarrow> spectrum \<Rightarrow> bool" where
  "same_curve s t =
     (wave s = wave t \<and> flux s = flux t \<and> unc s = unc t
      \<and> wave_units s = wave_units t \<and> flux_units s = flux_units t)"

section \<open>Bandpasses and synthetic photometry\<close>

text \<open>
  The bandpass class lives in \<open>synphot.py\<close>, which is not among the sources.  Of a
  bandpass the code reads the wavelength array, its unit, the throughput, the FWHM, the
  effective wavelength (in micron) and the overlap test, whose answer is one of the
  strings \<open>full\<close>, \<open>partial\<close> and \<open>none\<close>; the test is a parameter of the model.
\<close>

datatype overlap = Full | Partial | NoOverlap

record bandpass =
  bp_wave :: "real list"
  bp_wave_units :: units
  bp_throughput :: "real list"
  bp_FWHM :: real
  bp_eff :: real
  bp_overlap :: "qarray \<times> qarray \<times> qarray \<Rightarrow> overlap"

subsection \<open>Spectrum.synthetic_flux\<close>

text \<open>
  The method returns the receiver as it leaves it and \<open>(flx, unc)\<close>, \<open>None\<close> standing for
  the pair \<open>(None, None)\<close>.  The receiver's wavelength unit is set through the setter
  before anything is computed.  A zero integral of the throughput makes numpy divide by
  zero.
\<close>

definition weighted_flux :: "real list \<Rightarrow> real list \<Rightarrow> real list \<Rightarrow> real" where
  "weighted_flux f rsr wav = trapz (map2 (\<lambda>x r. x * r) f rsr) wav / trapz rsr wav"

definition quadrature :: "real list \<Rightarrow> real list \<Rightarrow> real list \<Rightarrow> real" where
  "quadrature sig_f rsr grad =
     sqrt (sum_list (map (\<lambda>(sf, r, g). (sf * r * g)\<^sup>2) (zip sig_f (zip rsr grad))))"

definition synthetic_flux ::
  "spectrum \<Rightarrow> bandpass \<Rightarrow> bool \<Rightarrow> spectrum \<times> (error + (real \<times> real) option)" where
  "synthetic_flux s bp force =
     (let ov = bp_overlap bp (spectrum_q s) in
      if ov = Full \<or> (ov = Partial \<and> force)
      then
        (case set_wave_units s (bp_wave_units bp) of
           (s', Some e) \<Rightarrow> (s', Inl e)
         | (s', None) \<Rightarrow>
        (case gradient (bp_wave bp) of Inl e \<Rightarrow> (s', Inl e) | Inr grad \<Rightarrow>
        (case interp (bp_wave bp) (wave s') (flux s') (Some 0) (Some 0) of
           Inl e \<Rightarrow> (s', Inl e) | Inr f \<Rightarrow>
        (case interp (bp_wave bp) (wave s') (unc s') (Some 0) (Some 0) of
           Inl e \<Rightarrow> (s', Inl e) | Inr sig_f \<Rightarrow>
         if length (bp_throughput bp) = length (bp_wave bp)
         then (if trapz (bp_throughput bp) (bp_wave bp) = 0 then (s', Inl NotFinite)
               else (s', Inr (Some (weighted_flux f (bp_throughput bp) (bp_wave bp),
                                    quadrature sig_f (bp_throughput bp) grad))))
         else (s', Inl ShapeValueError)))))
      else (s, Inr None))"

subsection \<open>Spectrum.norm_to_mags\<close>

text \<open>
  A row of the photometry table.  The float columns hold \<open>None\<close> for \<open>nan\<close>; \<open>eff\<close> and
  the four flux columns are quantities in the units of their columns.
\<close>

record phot_row =
  band :: string
  eff :: real
  app_magnitude :: "real option"
  app_magnitude_unc :: "real option"
  app_flux :: "real option"
  app_flux_unc :: "real option"
  abs_magnitude :: "real option"
  abs_magnitude_unc :: "real option"
  abs_flux :: "real option"
  abs_flux_unc :: "real option"
  row_bandpass :: bandpass

text \<open>Lines 393 to 409: the bands kept, and the rows of the table with a kept band.\<close>

definition keep_bands :: "string list \<Rightarrow> string list \<Rightarrow> string list \<Rightarrow> string list" where
  "keep_bands bands exclude include =
     filter (\<lambda>b. if include \<noteq> [] then b \<in> set include else b \<notin> set exclude) bands"

definition trim_table :: "phot_row list \<Rightarrow> string list \<Rightarrow> string list \<Rightarrow> phot_row list" where
  "trim_table photometry exclude include =
     filter (\<lambda>r. band r \<in> set (keep_bands (map band photometry) exclude include)) photometry"

text \<open>
  The entry \<open>[flx, unc, syn_flx, syn_unc, weight]\<close> appended to \<open>data\<close> for a row with a
  synthetic flux.
\<close>

record norm_entry =
  f1 :: "real option"
  e1 :: "real option"
  f2 :: real
  e2 :: real
  wgt :: real

text \<open>
  Lines 418 to 428: the loop over the rows.  It threads the receiver (which
  \<open>synthetic_flux\<close> mutates), the list \<open>data\<close> and the variable \<open>weight\<close>, which keeps
  the FWHM of the last row that had a synthetic flux.
\<close>

fun syn_rows ::
  "bool \<Rightarrow> phot_row list \<Rightarrow> spectrum \<times> norm_entry list \<times> real \<Rightarrow>
     spectrum \<times> (error + norm_entry list \<times> real)" where
  "syn_rows force [] (s, dat, weight) = (s, Inr (dat, weight))"
| "syn_rows force (row # rows) (s, dat, weight) =
     (case synthetic_flux s (row_bandpass row) force of
        (s', Inl e) \<Rightarrow> (s', Inl e)
      | (s', Inr None) \<Rightarrow> syn_rows force rows (s', dat, weight)
      | (s', Inr (Some (syn_flx, syn_unc))) \<Rightarrow>
          syn_rows force rows
            (s', dat @ [\<lparr>f1 = app_flux row, e1 = app_flux_unc row, f2 = syn_flx,
                          e2 = syn_unc, wgt = bp_FWHM (row_bandpass row)\<rparr>],
             bp_FWHM (row_bandpass row)))"

text \<open>
  Lines 437 to 440.  The sums multiply every term by the scalar \<open>weight\<close>; the column
  \<open>weights\<close> of the unpacked array is not used.  \<open>np.nansum\<close> leaves out the terms that
  are \<open>nan\<close> (a missing observed flux or uncertainty).  A zero variance in a term, or a
  zero denominator, makes numpy divide by zero.
\<close>

definition numerator_terms :: "real \<Rightarrow> norm_entry list \<Rightarrow> real list" where
  "numerator_terms weight dat =
     concat (map (\<lambda>d. case (f1 d, e1 d) of
                         (Some f, Some e) \<Rightarrow> [weight * f * f2 d / (e\<^sup>2 + (e2 d)\<^sup>2)]
                       | _ \<Rightarrow> []) dat)"

definition denominator_terms :: "real \<Rightarrow> norm_entry list \<Rightarrow> real list" where
  "denominator_terms weight dat =
     concat (map (\<lambda>d. case e1 d of
                         Some e \<Rightarrow> [weight * (f2 d)\<^sup>2 / (e\<^sup>2 + (e2 d)\<^sup>2)]
                       | None \<Rightarrow> []) dat)"

definition zero_variance :: "norm_entry \<Rightarrow> bool" where
  "zero_variance d = (case e1 d of Some e \<Rightarrow> e\<^sup>2 + (e2 d)\<^sup>2 = 0 | None \<Rightarrow> False)"

definition weighted_norm :: "real \<Rightarrow> norm_entry list \<Rightarrow> error + real" where
  "weighted_norm weight dat =
     (if list_ex zero_variance dat \<or> sum_list (denominator_terms weight dat) = 0
      then Inl NotFinite
      else Inr (sum_list (numerator_terms weight dat) / sum_list (denominator_terms weight dat)))"

text \<open>The scaled copy that line 442 builds.\<close>

definition scaled_args :: "spectrum \<Rightarrow> real \<Rightarrow> spectrum_args" where
  "scaled_args s nrm =
     default_args (wave s, wave_units s) (map (\<lambda>x. x * nrm) (flux s), flux_units s)
       (Some (map (\<lambda>x. x * nrm) (unc s), flux_units s))"

text \<open>
  \<open>compute_norm\<close> is the body up to line 440: the receiver as the loop leaves it, and
  the factor \<open>norm\<close>.  \<open>norm_to_mags\<close> returns the receiver and the new spectrum.
\<close>

definition compute_norm ::
  "spectrum \<Rightarrow> phot_row list \<Rightarrow> bool \<Rightarrow> string list \<Rightarrow> string list \<Rightarrow> spectrum \<times> (error + real)" where
  "compute_norm s photometry force exclude include =
     (let rows = trim_table photometry exclude include in
      if rows = [] then (s, Inr 1)
      else (case syn_rows force rows (s, [], 0) of
              (s', Inl e) \<Rightarrow> (s', Inl e)
            | (s', Inr (dat, weight)) \<Rightarrow>
                if dat = [] then (s', Inr 1) else (s', weighted_norm weight dat)))"

definition norm_to_mags ::
  "spectrum \<Rightarrow> phot_row list \<Rightarrow> bool \<Rightarrow> string list \<Rightarrow> string list \<Rightarrow>
     spectrum \<times> (error + spectrum)" where
  "norm_to_mags s photometry force exclude include =
     (case compute_norm s photometry force exclude include of
        (s', Inl e) \<Rightarrow> (s', Inl e)
      | (s', Inr nrm) \<Rightarrow> (s', spectrum_init (scaled_args s' nrm)))"

subsection \<open>Spectrum.flux_calibrate\<close>

text \<open>
  \<open>distance\<close> is the pair \<open>(d, sigma_d)\<close> and \<open>target_distance\<close> is \<open>D\<close>, all in the same
  unit of length; \<open>flux_units = None\<close> keeps the unit of the spectrum.  The first term of
  the uncertainty is \<open>unc * d / D\<close>.
\<close>

definition flux_calibrate ::
  "spectrum \<Rightarrow> real \<times> real \<Rightarrow> real \<Rightarrow> units option \<Rightarrow> error + spectrum" where
  "flux_calibrate s distance D flux_units' =
     (let fu = (case flux_units' of None \<Rightarrow> flux_units s | Some u \<Rightarrow> u);
          d = fst distance; sd = snd distance in
      if D = 0 then Inl NotFinite
      else (case unit_to (flux_units s) fu of
              None \<Rightarrow> Inl UnitConversionError
            | Some k \<Rightarrow>
                if length (flux s) = length (unc s)
                then spectrum_init
                       (default_args (wave s, wave_units s)
                          (map (\<lambda>f. f * (d / D)\<^sup>2 * k) (flux s), fu)
                          (Some (map2 (\<lambda>f u. sqrt ((u * d / D * k)\<^sup>2
                                                     + (2 * f * (sd * d / D\<^sup>2) * k)\<^sup>2))
                                   (flux s) (unc s), fu)))
                else Inl ShapeValueError))"

subsection \<open>Spectrum.integral\<close>

definition integral :: "spectrum \<Rightarrow> units \<Rightarrow> error + (real \<times> real)" where
  "integral s tu =
     (case unit_to tu erg_s_cm2 of
        None \<Rightarrow> Inl IntegralTypeError
      | Some _ \<Rightarrow>
          (case gradient (wave s) of
             Inl e \<Rightarrow> Inl e
           | Inr g \<Rightarrow>
               let m = unit_scale (flux_units s) * unit_scale (wave_units s) / unit_scale tu in
               Inr (trapz (flux s) (wave s) * m,
                    sqrt (sum_list (map2 (\<lambda>u x. (u * x)\<^sup>2) (unc s) g)) * m)))"

text \<open>
  The factor as the spec states it, for comparison with \<open>weighted_norm\<close>: every term is
  weighted by the FWHM of its own row.
\<close>

definition spec_norm :: "norm_entry list \<Rightarrow> real" where
  "spec_norm dat =
     sum_list (concat (map (\<lambda>d. numerator_terms (wgt d) [d]) dat))
     / sum_list (concat (map (\<lambda>d. denominator_terms (wgt d) [d]) dat))"

section \<open>The SED object\<close>

text \<open>
  The fields of \<open>SED\<close> that the modelled methods read or write.  \<open>photometry\<close> is the
  table \<open>_photometry\<close>, a list of rows (astropy's table class is outside the sources);
  \<open>eff_unit\<close> and \<open>flux_col_unit\<close> are the units its wavelength column and its four flux
  columns carry.  An attribute that may be missing (\<open>app_SED\<close>, \<open>fbol\<close>, \<open>mbol\<close>, the two
  photometric SEDs) is an option, \<open>None\<close> when \<open>hasattr\<close> is false.
\<close>

record sed =
  sed_name :: string
  sed_distance :: "(real \<times> real) option"
  sed_wave_units :: units
  sed_flux_units :: units
  photometry :: "phot_row list"
  eff_unit :: units
  flux_col_unit :: units
  app_phot_SED :: "spectrum option"
  abs_phot_SED :: "(real option list \<times> real option list) option"
  app_SED :: "spectrum option"
  fbol :: "(real \<times> real) option"
  mbol :: "(real \<times> real) option"

subsection \<open>SED.get_fbol and SED.get_mbol\<close>

text \<open>
  \<open>round(x, 3)\<close> on a numpy float: \<open>x * 1000\<close> rounded to the nearest integer, ties to
  the even one, divided by 1000.
\<close>

definition rint :: "real \<Rightarrow> int" where
  "rint x =
     (let f = \<lfloor>x\<rfloor>; d = x - of_int f in
      if d < 1/2 then f else if 1/2 < d then f + 1 else if even f then f else f + 1)"

definition round3 :: "real \<Rightarrow> real" where
  "round3 x = of_int (rint (x * 1000)) / 1000"

text \<open>A method of \<open>SED\<close> returns the object as it leaves it and the error it raised.\<close>

definition get_fbol :: "sed \<Rightarrow> units \<Rightarrow> sed \<times> error option" where
  "get_fbol s tu =
     (case app_SED s of
        None \<Rightarrow> (s, Some AttributeError)
      | Some sp \<Rightarrow>
          (case integral sp tu of
             Inl e \<Rightarrow> (s, Some e)
           | Inr v \<Rightarrow> (s\<lparr>fbol := Some v\<rparr>, None)))"

text \<open>
  Lines 687 to 698.  \<open>np.log10\<close> of a non-positive flux is \<open>nan\<close> or \<open>-inf\<close>.  Both the
  magnitude and its uncertainty are rounded to three decimals before they are stored.
\<close>

definition get_mbol :: "sed \<Rightarrow> sed \<times> error option" where
  "get_mbol s =
     (case (if fbol s = None then get_fbol s erg_s_cm2 else (s, None)) of
        (s1, Some e) \<Rightarrow> (s1, Some e)
      | (s1, None) \<Rightarrow>
          (case fbol s1 of
             None \<Rightarrow> (s1, Some AttributeError)
           | Some (f, sf) \<Rightarrow>
               if f \<le> 0 then (s1, Some NotFinite)
               else (s1\<lparr>mbol := Some (round3 (- 2.5 * log 10 f - 11.482),
                                       round3 ((2.5 / ln 10) * (sf / f)))\<rparr>, None)))"

subsection \<open>SED.add_photometry\<close>

text \<open>
  The magnitude arguments are Python values: a float, an int or \<open>None\<close>.  In a float
  column of the table an int is stored as a float and \<open>None\<close> as \<open>nan\<close>.
\<close>

datatype pyval = PyFloat real | PyInt int | PyNone

fun is_float :: "pyval \<Rightarrow> bool" where
  "is_float (PyFloat x) = True"
| "is_float (PyInt i) = False"
| "is_float PyNone = False"

fun to_column :: "pyval \<Rightarrow> real option" where
  "to_column (PyFloat x) = Some x"
| "to_column (PyInt i) = Some (of_int i)"
| "to_column PyNone = None"

text \<open>
  The helpers of \<open>synphot.py\<close> and \<open>utilities.py\<close>, which are not among the sources, are
  parameters: \<open>co_bandpass\<close> is \<open>synphot.bandpass\<close>, \<open>co_mag2flux\<close> is
  \<open>utilities.mag2flux\<close> (it returns the flux, its uncertainty and their unit) and
  \<open>co_flux_calibrate\<close> is \<open>utilities.flux_calibrate\<close>.  Each returns \<open>None\<close> where the
  helper raises, which the model reports as \<open>LookupError\<close>.
\<close>

record collaborators =
  co_bandpass :: "string \<Rightarrow> bandpass option"
  co_mag2flux :: "string \<Rightarrow> real option \<Rightarrow> real option \<Rightarrow> (real option \<times> real option \<times> units) option"
  co_flux_calibrate ::
    "real option list \<Rightarrow> real \<Rightarrow> real option list \<Rightarrow> real \<Rightarrow> (real option list \<times> real option list) option"

text \<open>The property \<open>photometry\<close> sorts the table by effective wavelength, in place.\<close>

definition sort_photometry :: "sed \<Rightarrow> sed" where
  "sort_photometry s = s\<lparr>photometry := sort_key eff (photometry s)\<rparr>"

text \<open>Lines 530 to 534: the columns are converted to the units of the SED.\<close>

definition convert_columns :: "sed \<Rightarrow> sed \<times> error option" where
  "convert_columns s =
     (case unit_to (eff_unit s) (sed_wave_units s) of
        None \<Rightarrow> (s, Some UnitConversionError)
      | Some kw \<Rightarrow>
          let s1 = s\<lparr>photometry := map (\<lambda>r. r\<lparr>eff := eff r * kw\<rparr>) (photometry s),
                     eff_unit := sed_wave_units s\<rparr> in
          (case unit_to (flux_col_unit s1) (sed_flux_units s1) of
             None \<Rightarrow> (s1, Some UnitConversionError)
           | Some kf \<Rightarrow>
               (s1\<lparr>photometry :=
                      map (\<lambda>r. r\<lparr>app_flux := map_option (\<lambda>x. x * kf) (app_flux r),
                                  app_flux_unc := map_option (\<lambda>x. x * kf) (app_flux_unc r),
                                  abs_flux := map_option (\<lambda>x. x * kf) (abs_flux r),
                                  abs_flux_unc := map_option (\<lambda>x. x * kf) (abs_flux_unc r)\<rparr>)
                        (photometry s1),
                    flux_col_unit := sed_flux_units s1\<rparr>, None)))"

text \<open>
  Lines 541 to 544 and 555 to 558: the loop that fills the apparent (\<open>ab = False\<close>) or
  absolute (\<open>ab = True\<close>) flux of every row from its magnitude.  It returns the rows as
  written so far when a helper raises.
\<close>

definition flux_of_row ::
  "collaborators \<Rightarrow> units \<Rightarrow> bool \<Rightarrow> phot_row \<Rightarrow> error + phot_row" where
  "flux_of_row co fu ab r =
     (case co_mag2flux co (band r) (if ab then abs_magnitude r else app_magnitude r)
             (if ab then abs_magnitude_unc r else app_magnitude_unc r) of
        None \<Rightarrow> Inl LookupError
      | Some (f, e, u) \<Rightarrow>
          (case unit_to u fu of
             None \<Rightarrow> Inl UnitConversionError
           | Some k \<Rightarrow>
               Inr (if ab
                    then r\<lparr>abs_flux := map_option (\<lambda>x. x * k) f,
                           abs_flux_unc := map_option (\<lambda>x. x * k) e\<rparr>
                    else r\<lparr>app_flux := map_option (\<lambda>x. x * k) f,
                           app_flux_unc := map_option (\<lambda>x. x * k) e\<rparr>)))"

fun flux_loop ::
  "collaborators \<Rightarrow> units \<Rightarrow> bool \<Rightarrow> phot_row list \<Rightarrow> phot_row list \<times> error option" where
  "flux_loop co fu ab [] = ([], None)"
| "flux_loop co fu ab (r # rs) =
     (case flux_of_row co fu ab r of
        Inl e \<Rightarrow> (r # rs, Some e)
      | Inr r' \<Rightarrow> (case flux_loop co fu ab rs of (rs', e) \<Rightarrow> (r' # rs', e)))"

text \<open>Lines 547 to 558: the absolute magnitudes and fluxes, computed when a distance is set.\<close>

definition calibrate_absolute :: "collaborators \<Rightarrow> sed \<Rightarrow> sed \<times> error option" where
  "calibrate_absolute co s =
     (case sed_distance s of
        None \<Rightarrow> (s, None)
      | Some (d, sd) \<Rightarrow>
          (case co_flux_calibrate co (map app_magnitude (photometry s)) d
                  (map app_magnitude_unc (photometry s)) sd of
             None \<Rightarrow> (s, Some LookupError)
           | Some (M, M_unc) \<Rightarrow>
               if length M = length (photometry s) \<and> length M_unc = length (photometry s)
               then
                 (case flux_loop co (sed_flux_units s) True
                         (map (\<lambda>(r, m, mu). r\<lparr>abs_magnitude := m, abs_magnitude_unc := mu\<rparr>)
                            (zip (photometry s) (zip M M_unc))) of
                    (rows, e) \<Rightarrow> (s\<lparr>photometry := rows\<rparr>, e))
               else (s, Some ShapeValueError)))"

text \<open>
  Lines 560 to 567: the apparent photometric SED is built from the rows of positive
  flux and positive uncertainty (\<open>nan\<close> is not positive); the absolute one subscripts
  \<open>self.distance\<close>, which is \<open>None\<close> until a distance is set.
\<close>

definition positive_rows :: "phot_row list \<Rightarrow> (real \<times> real \<times> real) list" where
  "positive_rows rows =
     concat (map (\<lambda>r. case (app_flux r, app_flux_unc r) of
                         (Some f, Some e) \<Rightarrow> if 0 < f \<and> 0 < e then [(eff r, f, e)] else []
                       | _ \<Rightarrow> []) rows)"

definition make_phot_SED :: "collaborators \<Rightarrow> sed \<Rightarrow> sed \<times> error option" where
  "make_phot_SED co s0 =
     (let s = sort_photometry s0; cs = positive_rows (photometry s) in
      case spectrum_init
             (default_args (map fst cs, sed_wave_units s) (map (\<lambda>c. fst (snd c)) cs, sed_flux_units s)
                (Some (map (\<lambda>c. snd (snd c)) cs, sed_flux_units s))) of
        Inl e \<Rightarrow> (s, Some e)
      | Inr sp \<Rightarrow>
          let s1 = s\<lparr>app_phot_SED := Some sp\<rparr> in
          (case sed_distance s1 of
             None \<Rightarrow> (s1, Some NoneTypeError)
           | Some (d, sd) \<Rightarrow>
               (case co_flux_calibrate co (map Some (flux sp)) d (map Some (unc sp)) sd of
                  None \<Rightarrow> (s1, Some LookupError)
                | Some r \<Rightarrow> (s1\<lparr>abs_phot_SED := Some r\<rparr>, None))))"

definition calibrate_photometry :: "collaborators \<Rightarrow> sed \<Rightarrow> sed \<times> error option" where
  "calibrate_photometry co s0 =
     (let s = sort_photometry s0 in
      if photometry s = [] then (s, None)
      else
        (case convert_columns s of
           (s1, Some e) \<Rightarrow> (s1, Some e)
         | (s1, None) \<Rightarrow>
        (case flux_loop co (sed_flux_units s1) False (photometry s1) of
           (rows, Some e) \<Rightarrow> (s1\<lparr>photometry := rows\<rparr>, Some e)
         | (rows, None) \<Rightarrow>
        (case calibrate_absolute co (s1\<lparr>photometry := rows\<rparr>) of
           (s2, Some e) \<Rightarrow> (s2, Some e)
         | (s2, None) \<Rightarrow> make_phot_SED co s2))))"

text \<open>
  Lines 500 to 517, for a call without further keyword arguments.  The new row holds
  the band, the effective wavelength of the bandpass (given in micron, stored in the
  unit of the column), the two magnitudes and the bandpass; its other columns are zero.
\<close>

definition new_row :: "string \<Rightarrow> bandpass \<Rightarrow> real \<Rightarrow> pyval \<Rightarrow> pyval \<Rightarrow> phot_row" where
  "new_row b bp k mag mag_unc =
     \<lparr>band = b, eff = bp_eff bp * k, app_magnitude = to_column mag,
      app_magnitude_unc = to_column mag_unc, app_flux = Some 0, app_flux_unc = Some 0,
      abs_magnitude = Some 0, abs_magnitude_unc = Some 0, abs_flux = Some 0,
      abs_flux_unc = Some 0, row_bandpass = bp\<rparr>"

definition add_photometry ::
  "collaborators \<Rightarrow> sed \<Rightarrow> string \<Rightarrow> pyval \<Rightarrow> pyval \<Rightarrow> sed \<times> error option" where
  "add_photometry co s b mag mag_unc =
     (if \<not> is_float mag \<and> \<not> is_float mag_unc then (s, Some MagTypeError)
      else
        (case co_bandpass co b of
           None \<Rightarrow> (s, Some LookupError)
         | Some bp \<Rightarrow>
             (case unit_to um (eff_unit s) of
                None \<Rightarrow> (s, Some UnitConversionError)
              | Some k \<Rightarrow>
                  calibrate_photometry co
                    (s\<lparr>photometry := photometry s @ [new_row b bp k mag mag_unc]\<rparr>))))"

text \<open>What identifies a row of the table: its band and its two apparent magnitudes.\<close>

definition row_key :: "phot_row \<Rightarrow> string \<times> real option \<times> real option" where
  "row_key r = (band r, app_magnitude r, app_magnitude_unc r)"

section \<open>SED.group_spectra\<close>

text \<open>
  The overlap test of \<open>group_spectra\<close>: \<open>any\<close> of the positions of the anchor's samples
  that lie strictly inside the candidate's span (position 0 is falsy).  \<open>absorb\<close> is the
  inner loop and \<open>group_loop\<close> the outer one; both thread the list \<open>idx\<close> of the positions
  already grouped.  A group is the list of the positions of its members in the input
  (\<open>group_spectra_idx\<close>); \<open>group_spectra\<close> returns the members themselves.  Reading
  \<open>s.wave[-1]\<close> of a spectrum without samples raises IndexError.
\<close>

definition overlaps :: "real list \<Rightarrow> real list \<Rightarrow> bool" where
  "overlaps Sw sw = any_idx (np_where (\<lambda>i. Sw ! i < last sw \<and> Sw ! i > hd sw) (length Sw))"

fun absorb :: "spectrum list \<Rightarrow> spectrum \<Rightarrow> nat list \<Rightarrow> nat list \<times> nat list \<Rightarrow> error + (nat list \<times> nat list)" where
  "absorb sp S [] (grp, idx) = Inr (grp, idx)"
| "absorb sp S (n # ns) (grp, idx) =
     (if n \<in> set idx then absorb sp S ns (grp, idx)
      else if wave (sp ! n) = [] then Inl IndexError
      else if overlaps (wave S) (wave (sp ! n)) then absorb sp S ns (grp @ [n], idx @ [n])
      else absorb sp S ns (grp, idx))"

fun group_loop :: "spectrum list \<Rightarrow> nat list \<Rightarrow> nat list list \<times> nat list \<Rightarrow> error + (nat list list \<times> nat list)" where
  "group_loop sp [] (grps, idx) = Inr (grps, idx)"
| "group_loop sp (N # Ns) (grps, idx) =
     (if N \<in> set idx then group_loop sp Ns (grps, idx)
      else (case absorb sp (sp ! N) [0..<length sp] ([N], idx @ [N]) of
              Inl e \<Rightarrow> Inl e
            | Inr (grp, idx') \<Rightarrow> group_loop sp Ns (grps @ [grp], idx')))"

definition group_spectra_idx :: "spectrum list \<Rightarrow> error + nat list list" where
  "group_spectra_idx sp =
     (case group_loop sp [0..<length sp] ([], []) of Inl e \<Rightarrow> Inl e | Inr (grps, idx) \<Rightarrow> Inr grps)"

definition group_spectra :: "spectrum list \<Rightarrow> error + spectrum list list" where
  "group_spectra sp =
     (case group_spectra_idx sp of Inl e \<Rightarrow> Inl e | Inr gs \<Rightarrow> Inr (map (map (\<lambda>i. sp ! i)) gs))"

section \<open>Concrete inputs\<close>

text \<open>
  Series A of the spec's example (wavelengths in micron), as the constructor returns it.
  \<open>wmin\<close> and \<open>wmax\<close> carry the second conversion of the setter.
\<close>

definition mk_spectrum :: "real list \<Rightarrow> real list \<Rightarrow> real list \<Rightarrow> spectrum" where
  "mk_spectrum w f u =
     \<lparr>name = None, verbose = False, wave = w, flux = f, unc = u,
      wave_units = um, flux_units = flam,
      wmin = Min (set w) / 10000, wmax = Max (set w) / 10000, components = None\<rparr>"

definition specA :: spectrum where
  "specA = mk_spectrum [1, 11/10, 12/10] [5, 5, 5] [1/2, 1/2, 1/2]"

text \<open>Series B of the spec's example.\<close>

definition specB :: spectrum where
  "specB = mk_spectrum [115/100, 125/100, 135/100] [6, 6, 6] [6/10, 6/10, 6/10]"

text \<open>A third spectrum, away from both.\<close>

definition specC :: spectrum where
  "specC = mk_spectrum [2, 21/10, 22/10] [7, 7, 7] [7/10, 7/10, 7/10]"

text \<open>Three wavelengths, two fluxes and two uncertainties.\<close>

definition ragged_args :: spectrum_args where
  "ragged_args =
     default_args ([1, 11/10, 12/10], um) ([5, 5], flam) (Some ([1/2, 1/2], flam))"

text \<open>Series B given in Angstrom, as the constructor returns it.\<close>

definition specB_AA :: spectrum where
  "specB_AA =
     \<lparr>name = None, verbose = False, wave = [11500, 12500, 13500], flux = [6, 6, 6],
      unc = [6/10, 6/10, 6/10], wave_units = AA, flux_units = flam,
      wmin = 11500, wmax = 13500, components = None\<rparr>"

text \<open>
  Series B given in Angstrom with its flux in erg/s/cm2/micron (\<open>flum\<close>, a ten-thousandth
  of erg/s/cm2/A), as the constructor returns it: it differs from A in both units.
\<close>

definition flum :: units where
  "flum = Units FluxDensity (1/10000)"

definition specB_far :: spectrum where
  "specB_far =
     \<lparr>name = None, verbose = False, wave = [11500, 12500, 13500],
      flux = [60000, 60000, 60000], unc = [6000, 6000, 6000], wave_units = AA,
      flux_units = flum, wmin = 11500, wmax = 13500, components = None\<rparr>"

text \<open>
  A second spectrum of lower resolution than A whose uncertainties grow with
  wavelength, and one of higher resolution than A.
\<close>

definition specB2 :: spectrum where
  "specB2 = mk_spectrum [115/100, 135/100, 155/100] [6, 6, 6] [6/10, 7/10, 8/10]"

definition specB3 :: spectrum where
  "specB3 = mk_spectrum [115/100, 120/100, 125/100] [6, 6, 6] [6/10, 6/10, 6/10]"

text \<open>
  A spectrum built with \<open>snr_trim = 1\<close>: its first sample has a signal-to-noise ratio
  of 2.5.
\<close>

definition low_args :: spectrum_args where
  "low_args =
     (default_args ([1, 11/10, 12/10], um) ([5, 5, 5], flam)
        (Some ([2, 1/2, 1/2], flam)))\<lparr>a_snr_trim := Some 1\<rparr>"

definition specLow :: spectrum where
  "specLow = mk_spectrum [1, 11/10, 12/10] [5, 5, 5] [2, 1/2, 1/2]"

text \<open>A bandpass over A's range, given in Angstrom, that reports full overlap.\<close>

definition bpJ :: bandpass where
  "bpJ = \<lparr>bp_wave = [10000, 11000, 12000], bp_wave_units = AA, bp_throughput = [1, 1, 1],
          bp_FWHM = 1000, bp_eff = 11/10, bp_overlap = (\<lambda>q. Full)\<rparr>"

text \<open>
  A flat spectrum, two bandpasses of different FWHM inside its range, and a table
  with one observed flux in each: 10 in the first band and 20 in the second.
\<close>

definition specN :: spectrum where
  "specN = mk_spectrum [1, 2, 3, 4] [10, 10, 10, 10] [1, 1, 1, 1]"

definition bp1 :: bandpass where
  "bp1 = \<lparr>bp_wave = [1, 2], bp_wave_units = um, bp_throughput = [1, 1],
          bp_FWHM = 1, bp_eff = 3/2, bp_overlap = (\<lambda>q. Full)\<rparr>"

definition bp2 :: bandpass where
  "bp2 = \<lparr>bp_wave = [3, 4], bp_wave_units = um, bp_throughput = [1, 1],
          bp_FWHM = 3, bp_eff = 7/2, bp_overlap = (\<lambda>q. Full)\<rparr>"

definition mk_row :: "string \<Rightarrow> bandpass \<Rightarrow> real \<Rightarrow> real \<Rightarrow> phot_row" where
  "mk_row b bp f e =
     \<lparr>band = b, eff = bp_eff bp, app_magnitude = Some 0, app_magnitude_unc = Some 0,
      app_flux = Some f, app_flux_unc = Some e, abs_magnitude = Some 0,
      abs_magnitude_unc = Some 0, abs_flux = Some 0, abs_flux_unc = Some 0,
      row_bandpass = bp\<rparr>"

definition photN :: "phot_row list" where
  "photN = [mk_row ''J'' bp1 10 1, mk_row ''K'' bp2 20 1]"

definition entriesN :: "norm_entry list" where
  "entriesN =
     [\<lparr>f1 = Some 10, e1 = Some 1, f2 = 10, e2 = sqrt 2, wgt = 1\<rparr>,
      \<lparr>f1 = Some 20, e1 = Some 1, f2 = 10, e2 = sqrt 2, wgt = 3\<rparr>]"

text \<open>The spec's example for \<open>flux_calibrate\<close>: value 10 with uncertainty 1.\<close>

definition spec10 :: spectrum where
  "spec10 = mk_spectrum [1, 11/10, 12/10] [10, 10, 10] [1, 1, 1]"

text \<open>
  An SED whose bolometric flux is 1 erg/s/cm2 with uncertainty 0.0004, and one that has
  series A as its apparent SED and no bolometric flux yet.
\<close>

definition sed1 :: sed where
  "sed1 =
     \<lparr>sed_name = ''My Target'', sed_distance = None, sed_wave_units = um,
      sed_flux_units = flam, photometry = [], eff_unit = um, flux_col_unit = flam,
      app_phot_SED = None, abs_phot_SED = None, app_SED = None,
      fbol = Some (1, 4/10000), mbol = None\<rparr>"

definition sedA :: sed where
  "sedA = sed1\<lparr>app_SED := Some specA, fbol := None\<rparr>"

text \<open>
  Stand-ins for the helpers: two known bands; a flux of 100 for every magnitude, with
  uncertainty 10 when the magnitude has an uncertainty and \<open>nan\<close> when it has none;
  and a calibration that returns its inputs.  The SED has a distance and one row.
\<close>

definition co1 :: collaborators where
  "co1 =
     \<lparr>co_bandpass = (\<lambda>b. if b = ''J'' then Some bp1 else if b = ''K'' then Some bp2 else None),
      co_mag2flux = (\<lambda>b m e. Some (map_option (\<lambda>x. 100) m, map_option (\<lambda>x. 10) e, flam)),
      co_flux_calibrate = (\<lambda>m d mu sd. Some (m, mu))\<rparr>"

definition sedP :: sed where
  "sedP =
     sed1\<lparr>sed_distance := Some (11, 1),
          photometry := [(mk_row ''J'' bp1 100 10)\<lparr>app_magnitude := Some (123/10),
                                                     app_magnitude_unc := Some (1/10)\<rparr>],
          fbol := None\<rparr>"

section \<open>The constructor's shape guard\<close>

lemmas init_defs =
  spectrum_init_def default_args_def shape_mismatch_def unit_to_def um_def AA_def flam_def
  scrub_def scrub_keep_def np_where_def pick3_def pick_def snr_trim_def snr_ok_def
  any_idx_def slice_def positive_prefix_def set_wave_units_def Let_def

lemma specA_constructed:
  "spectrum_init (default_args ([1, 11/10, 12/10], um) ([5, 5, 5], flam)
       (Some ([1/2, 1/2, 1/2], flam))) = Inr specA"
  by (simp add: init_defs specA_def mk_spectrum_def)

text \<open>
  C6.  The guard raises only when the wavelength array and the uncertainty array both
  differ in shape from the flux array.  With three wavelengths, two fluxes and two
  uncertainties the guard does not raise and the constructor does not end in the
  shape error; in this model it goes on to build an object of two samples.
\<close>

theorem shape_guard_misses_wave_mismatch:
  "length (fst (a_wave ragged_args)) \<noteq> length (fst (a_flux ragged_args))
   \<and> shape_mismatch 3 2 (Some 2) = False
   \<and> spectrum_init ragged_args \<noteq> Inl ShapeTypeError
   \<and> spectrum_init ragged_args = Inr (mk_spectrum [1, 11/10] [5, 5] [1/2, 1/2])"
  by (simp add: init_defs ragged_args_def mk_spectrum_def)

section \<open>Stitching\<close>

lemmas stitch_defs =
  stitch_def overlapping_def col_w_def col_f_def col_u_def np_any_def merge_overlap_def
  resolution_def res_less_def interp_def interp1_def Let_def

lemmas add_defs =
  add_def alloc_def set_wave_units_def set_flux_units_def data_def stitched_args_def
  copy_args_def

lemma sqrt_le_numeral:
  assumes "0 \<le> y" and "x \<le> y\<^sup>2"
  shows "sqrt x \<le> y"
  using assms by (simp add: real_le_lsqrt)

lemma snr_merged_61: "5 \<le> 11 / (2 * sqrt (61 / 100))"
proof -
  have "sqrt (61 / 100) \<le> 11 / 10"
    by (rule sqrt_le_numeral) (simp_all add: power2_eq_square)
  moreover have "0 < sqrt (61 / 100 :: real)" by simp
  ultimately show ?thesis by (simp add: field_simps)
qed

lemma snr_merged_89: "5 \<le> 11 / (2 * sqrt (89 / 100))"
proof -
  have "sqrt (89 / 100) \<le> 11 / 10"
    by (rule sqrt_le_numeral) (simp_all add: power2_eq_square)
  moreover have "0 < sqrt (89 / 100 :: real)" by simp
  ultimately show ?thesis by (simp add: field_simps)
qed

lemma specB_AA_constructed:
  "spectrum_init (default_args ([11500, 12500, 13500], AA) ([6, 6, 6], flam)
       (Some ([6/10, 6/10, 6/10], flam))) = Inr specB_AA"
  by (simp add: init_defs specB_AA_def)

text \<open>
  The spec's example, with series B given in Angstrom: the merged overlap value is 5.5
  and its uncertainty the quadrature sum of 0.5 and 0.6.  The second operand is left in
  the units of the first.
\<close>

lemma spec_example_merge:
  "add [specA, specB_AA] 0 (Some 1) =
     ([specA, specB,
       (mk_spectrum [1, 11/10, 12/10, 125/100, 135/100] [5, 5, 11/2, 6, 6]
          [1/2, 1/2, sqrt (61/100), 6/10, 6/10])\<lparr>components := Some (3, 1)\<rparr>,
       specA], Inr 2)"
  using snr_merged_61
  by (simp add: add_defs stitch_defs init_defs power2_eq_square
      specA_def specB_def specB_AA_def mk_spectrum_def)

text \<open>
  C1.  The merged overlap of the code, evaluated for series A and a second series of
  lower resolution whose uncertainties are 0.6, 0.7 and 0.8 at 1.15, 1.35 and 1.55
  micron.  The grid point of the overlap is A's sample at 1.2 micron.  The merged flux
  there is the mean 5.5, but the uncertainty of the second series is interpolated
  against its own uncertainties instead of its wavelengths: 1.2 lies above all of them,
  so the last uncertainty 0.8 is taken, where linear interpolation against wavelength
  gives 0.625.  The merged uncertainty is the quadrature sum of 0.5 and 0.8, not of 0.5
  and 0.625.
\<close>

theorem merge_interpolates_uncertainty_against_itself:
  "add [specA, specB2] 0 (Some 1) =
     ([specA, specB2\<lparr>wmin := 115/100, wmax := 155/100\<rparr>,
       (mk_spectrum [1, 11/10, 12/10, 135/100, 155/100] [5, 5, 11/2, 6, 6]
          [1/2, 1/2, sqrt ((1/2)\<^sup>2 + (8/10)\<^sup>2), 7/10, 8/10])\<lparr>components := Some (3, 1)\<rparr>,
       specA], Inr 2)
   \<and> interp [12/10] (wave specB2) (unc specB2) None None = Inr [5/8]
   \<and> sqrt ((1/2)\<^sup>2 + (8/10)\<^sup>2) \<noteq> sqrt ((1/2)\<^sup>2 + (5/8)\<^sup>2)"
  using snr_merged_89
  by (simp add: add_defs stitch_defs init_defs power2_eq_square
      specA_def specB2_def mk_spectrum_def)

text \<open>
  When the second spectrum has the higher resolution its overlap samples become the
  grid, and it is again the second spectrum that is interpolated onto them: the merged
  flux at 1.15 micron is the second spectrum's own 6, not the mean of 5 and 6.
\<close>

lemma merge_higher_resolution_operand:
  "add [specA, specB3] 0 (Some 1) =
     ([specA, specB3\<lparr>wmin := 115/100, wmax := 125/100\<rparr>,
       (mk_spectrum [1, 11/10, 115/100, 120/100, 125/100] [5, 5, 6, 6, 6]
          [1/2, 1/2, sqrt ((6/10)\<^sup>2 + (6/10)\<^sup>2), 6/10, 6/10])\<lparr>components := Some (3, 1)\<rparr>,
       specA], Inr 2)"
  by (simp add: add_defs stitch_defs init_defs power2_eq_square
      specA_def specB3_def mk_spectrum_def)

section \<open>Adding None\<close>

lemma specLow_constructed: "spectrum_init low_args = Inr specLow"
  by (simp add: init_defs low_args_def specLow_def mk_spectrum_def)

text \<open>
  C3.  \<open>a + None\<close> runs the constructor with its default arguments on the arrays of
  \<open>a\<close>.  For a spectrum built with \<open>snr_trim = 1\<close> whose first sample has a
  signal-to-noise ratio of 2.5, the default trimming at 5 drops that sample: the result
  has two samples where \<open>a\<close> has three.
\<close>

theorem add_None_trims_again:
  "spectrum_init low_args = Inr specLow
   \<and> add [specLow] 0 None = ([specLow, mk_spectrum [11/10, 12/10] [5, 5] [1/2, 1/2]], Inr 1)
   \<and> wave (mk_spectrum [11/10, 12/10] [5, 5] [1/2, 1/2]) \<noteq> wave specLow"
  by (simp add: add_defs init_defs low_args_def specLow_def mk_spectrum_def)

section \<open>What a merge changes\<close>

lemma set_wave_units_same:
  "same_curve (fst (set_wave_units s (wave_units s))) s"
  by (auto simp: set_wave_units_def same_curve_def unit_to_def Let_def split: option.splits)

lemma set_flux_units_same:
  "same_curve (fst (set_flux_units s (flux_units s))) s"
  by (auto simp: set_flux_units_def same_curve_def unit_to_def split: option.splits)

lemma set_wave_units_flux_units:
  "flux_units (fst (set_wave_units s wu)) = flux_units s"
  by (auto simp: set_wave_units_def Let_def split: option.splits)

lemma retarget_same:
  assumes "wave_units s = wu" and "flux_units s = fu"
  shows "same_curve (retarget s wu fu) s"
proof -
  obtain s1 e where sw: "set_wave_units s wu = (s1, e)" by (cases "set_wave_units s wu")
  have c1: "same_curve s1 s" using set_wave_units_same[of s] sw assms by simp
  show ?thesis
  proof (cases e)
    case None
    have "flux_units s1 = fu" using c1 assms by (simp add: same_curve_def)
    then have "same_curve (fst (set_flux_units s1 fu)) s1"
      using set_flux_units_same[of s1] by simp
    with c1 None sw show ?thesis by (simp add: retarget_def same_curve_def)
  next
    case (Some x)
    with c1 sw show ?thesis by (simp add: retarget_def)
  qed
qed

lemma add_store:
  "\<exists>ext. fst (add h a (Some b)) = h[b := retarget (h ! b) (wave_units (h ! a)) (flux_units (h ! a))] @ ext"
  by (auto simp: add_def retarget_def Let_def split: prod.splits option.splits sum.splits)

lemma add_result:
  "snd (add h a (Some b)) = Inr n \<Longrightarrow> n = length h \<and> n < length (fst (add h a (Some b)))"
  by (auto simp: add_def Let_def split: prod.splits option.splits sum.splits)

lemma specB_far_constructed:
  "spectrum_init (default_args ([11500, 12500, 13500], AA) ([60000, 60000, 60000], flum)
       (Some ([6000, 6000, 6000], flum))) = Inr specB_far"
  by (simp add: init_defs specB_far_def flum_def)

lemma retarget_converts:
  assumes "wave s \<noteq> []" and "unit_to wu um = Some ku" and "unit_to (wave_units s) wu = Some kw"
    and "unit_to fu flam = Some kv" and "unit_to (flux_units s) fu = Some kf"
  shows "wave_units (retarget s wu fu) = wu \<and> flux_units (retarget s wu fu) = fu
       \<and> wave (retarget s wu fu) = map (\<lambda>x. x * kw) (wave s)
       \<and> flux (retarget s wu fu) = map (\<lambda>x. x * kf) (flux s)
       \<and> unc (retarget s wu fu) = map (\<lambda>x. x * kf) (unc s)"
  using assms by (simp add: retarget_def set_wave_units_def set_flux_units_def Let_def)

lemma retarget_same_iff:
  assumes "wave s \<noteq> []" and "unit_to wu um = Some ku" and "unit_to (wave_units s) wu = Some kw"
    and "unit_to fu flam = Some kv" and "unit_to (flux_units s) fu = Some kf"
  shows "same_curve (retarget s wu fu) s \<longleftrightarrow> wave_units s = wu \<and> flux_units s = fu"
proof
  assume "same_curve (retarget s wu fu) s"
  then have "wave_units (retarget s wu fu) = wave_units s"
    and "flux_units (retarget s wu fu) = flux_units s"
    by (simp_all add: same_curve_def)
  then show "wave_units s = wu \<and> flux_units s = fu"
    using retarget_converts[OF assms] by simp
next
  assume "wave_units s = wu \<and> flux_units s = fu"
  then show "same_curve (retarget s wu fu) s" using retarget_same by blast
qed

lemma far_merge:
  "add [specA, specB_far] 0 (Some 1) =
     ([specA, specB,
       (mk_spectrum [1, 11/10, 12/10, 125/100, 135/100] [5, 5, 11/2, 6, 6]
          [1/2, 1/2, sqrt (61/100), 6/10, 6/10])\<lparr>components := Some (3, 1)\<rparr>,
       specA], Inr 2)"
  using snr_merged_61
  by (simp add: add_defs stitch_defs init_defs power2_eq_square
      specA_def specB_def specB_far_def flum_def mk_spectrum_def)

text \<open>
  C5, as amended.  For two objects of the store, the merge leaves the curve of the
  first operand as it was (its three arrays and its two units).  It leaves the second
  operand as the two unit setters leave it: for a second operand with a sample, whose
  units convert to the length and flux-density units of the first, its two unit fields
  are those of the first operand afterwards, its wavelengths are multiplied by the
  factor between the two wavelength units and its fluxes and uncertainties by the factor
  between the two flux units; so it holds the same curve as before exactly when its two
  units were those of the first operand already.  Every other object of the store is
  untouched, and a result the merge returns is a new object, at an address the store
  did not have.
\<close>

theorem add_mutates_only_second_operand:
  assumes "a < length h" and "b < length h"
  shows "same_curve (fst (add h a (Some b)) ! a) (h ! a)
       \<and> fst (add h a (Some b)) ! b = retarget (h ! b) (wave_units (h ! a)) (flux_units (h ! a))
       \<and> (wave (h ! b) \<noteq> [] \<and> unit_to (wave_units (h ! a)) um = Some ku
            \<and> unit_to (wave_units (h ! b)) (wave_units (h ! a)) = Some kw
            \<and> unit_to (flux_units (h ! a)) flam = Some kv
            \<and> unit_to (flux_units (h ! b)) (flux_units (h ! a)) = Some kf
          \<longrightarrow> wave_units (fst (add h a (Some b)) ! b) = wave_units (h ! a)
            \<and> flux_units (fst (add h a (Some b)) ! b) = flux_units (h ! a)
            \<and> wave (fst (add h a (Some b)) ! b) = map (\<lambda>x. x * kw) (wave (h ! b))
            \<and> flux (fst (add h a (Some b)) ! b) = map (\<lambda>x. x * kf) (flux (h ! b))
            \<and> unc (fst (add h a (Some b)) ! b) = map (\<lambda>x. x * kf) (unc (h ! b))
            \<and> (same_curve (fst (add h a (Some b)) ! b) (h ! b)
                 \<longleftrightarrow> wave_units (h ! b) = wave_units (h ! a)
                     \<and> flux_units (h ! b) = flux_units (h ! a)))
       \<and> (wave_units (h ! b) = wave_units (h ! a) \<and> flux_units (h ! b) = flux_units (h ! a)
            \<longrightarrow> same_curve (fst (add h a (Some b)) ! b) (h ! b))
       \<and> (\<forall>c < length h. c \<noteq> b \<longrightarrow> fst (add h a (Some b)) ! c = h ! c)
       \<and> length h \<le> length (fst (add h a (Some b)))
       \<and> (\<forall>n. snd (add h a (Some b)) = Inr n \<longrightarrow> n = length h \<and> n < length (fst (add h a (Some b))))"
proof -
  let ?r = "retarget (h ! b) (wave_units (h ! a)) (flux_units (h ! a))"
  obtain ext where st: "fst (add h a (Some b)) = h[b := ?r] @ ext"
    using add_store by blast
  have at_b: "fst (add h a (Some b)) ! b = ?r"
    using st assms by (simp add: nth_append)
  have others: "\<forall>c < length h. c \<noteq> b \<longrightarrow> fst (add h a (Some b)) ! c = h ! c"
    using st by (simp add: nth_append)
  have same_b: "wave_units (h ! b) = wave_units (h ! a) \<and> flux_units (h ! b) = flux_units (h ! a)
            \<longrightarrow> same_curve (fst (add h a (Some b)) ! b) (h ! b)"
    using at_b retarget_same by simp
  have conv: "wave_units (fst (add h a (Some b)) ! b) = wave_units (h ! a)
            \<and> flux_units (fst (add h a (Some b)) ! b) = flux_units (h ! a)
            \<and> wave (fst (add h a (Some b)) ! b) = map (\<lambda>x. x * kw) (wave (h ! b))
            \<and> flux (fst (add h a (Some b)) ! b) = map (\<lambda>x. x * kf) (flux (h ! b))
            \<and> unc (fst (add h a (Some b)) ! b) = map (\<lambda>x. x * kf) (unc (h ! b))
            \<and> (same_curve (fst (add h a (Some b)) ! b) (h ! b)
                 \<longleftrightarrow> wave_units (h ! b) = wave_units (h ! a)
                     \<and> flux_units (h ! b) = flux_units (h ! a))"
    if wf: "wave (h ! b) \<noteq> []" "unit_to (wave_units (h ! a)) um = Some ku"
      "unit_to (wave_units (h ! b)) (wave_units (h ! a)) = Some kw"
      "unit_to (flux_units (h ! a)) flam = Some kv"
      "unit_to (flux_units (h ! b)) (flux_units (h ! a)) = Some kf"
    using retarget_converts[OF wf] retarget_same_iff[OF wf] at_b by simp
  have at_a: "same_curve (fst (add h a (Some b)) ! a) (h ! a)"
  proof (cases "a = b")
    case True
    then show ?thesis using same_b by simp
  next
    case False
    then show ?thesis using others assms by (simp add: same_curve_def)
  qed
  have len: "length h \<le> length (fst (add h a (Some b)))" using st by simp
  show ?thesis using at_a at_b same_b others len add_result conv by blast
qed

theorem add_mutates_only_second_operand_witness:
  "(0::nat) < length [specA, specB_far] \<and> (1::nat) < length [specA, specB_far]
   \<and> wave ([specA, specB_far] ! 1) \<noteq> []
   \<and> unit_to (wave_units ([specA, specB_far] ! 0)) um = Some 1
   \<and> unit_to (wave_units ([specA, specB_far] ! 1)) (wave_units ([specA, specB_far] ! 0)) = Some (1/10000)
   \<and> unit_to (flux_units ([specA, specB_far] ! 0)) flam = Some 1
   \<and> unit_to (flux_units ([specA, specB_far] ! 1)) (flux_units ([specA, specB_far] ! 0)) = Some (1/10000)
   \<and> wave_units specB_far = AA \<and> flux_units specB_far = flum
   \<and> wave_units (fst (add [specA, specB_far] 0 (Some 1)) ! 1) = um
   \<and> flux_units (fst (add [specA, specB_far] 0 (Some 1)) ! 1) = flam
   \<and> wave (fst (add [specA, specB_far] 0 (Some 1)) ! 1) = [115/100, 125/100, 135/100]
   \<and> flux (fst (add [specA, specB_far] 0 (Some 1)) ! 1) = [6, 6, 6]
   \<and> unc (fst (add [specA, specB_far] 0 (Some 1)) ! 1) = [6/10, 6/10, 6/10]
   \<and> \<not> same_curve (fst (add [specA, specB_far] 0 (Some 1)) ! 1) specB_far
   \<and> same_curve (fst (add [specA, specB_far] 0 (Some 1)) ! 0) specA
   \<and> snd (add [specA, specB_far] 0 (Some 1)) = Inr 2
   \<and> length (fst (add [specA, specB_far] 0 (Some 1))) = 4"
proof -
  let ?h = "[specA, specB_far]"
  have l: "(0::nat) < length ?h" "(1::nat) < length ?h" by simp_all
  have ne: "wave (?h ! 1) \<noteq> []" by (simp add: specB_far_def)
  have ku: "unit_to (wave_units (?h ! 0)) um = Some 1"
    by (simp add: specA_def mk_spectrum_def unit_to_def um_def)
  have kw: "unit_to (wave_units (?h ! 1)) (wave_units (?h ! 0)) = Some (1/10000)"
    by (simp add: specA_def specB_far_def mk_spectrum_def unit_to_def um_def AA_def)
  have kv: "unit_to (flux_units (?h ! 0)) flam = Some 1"
    by (simp add: specA_def mk_spectrum_def unit_to_def flam_def)
  have kf: "unit_to (flux_units (?h ! 1)) (flux_units (?h ! 0)) = Some (1/10000)"
    by (simp add: specA_def specB_far_def mk_spectrum_def unit_to_def flam_def flum_def)
  have u: "wave_units specB_far = AA" "flux_units specB_far = flum"
    by (simp_all add: specB_far_def)
  have d: "AA \<noteq> um" by (simp add: AA_def um_def)
  have t: "same_curve (fst (add ?h 0 (Some 1)) ! 0) (?h ! 0)
      \<and> wave_units (fst (add ?h 0 (Some 1)) ! 1) = wave_units (?h ! 0)
      \<and> flux_units (fst (add ?h 0 (Some 1)) ! 1) = flux_units (?h ! 0)
      \<and> wave (fst (add ?h 0 (Some 1)) ! 1) = map (\<lambda>x. x * (1/10000)) (wave (?h ! 1))
      \<and> flux (fst (add ?h 0 (Some 1)) ! 1) = map (\<lambda>x. x * (1/10000)) (flux (?h ! 1))
      \<and> unc (fst (add ?h 0 (Some 1)) ! 1) = map (\<lambda>x. x * (1/10000)) (unc (?h ! 1))
      \<and> (same_curve (fst (add ?h 0 (Some 1)) ! 1) (?h ! 1)
            \<longleftrightarrow> wave_units (?h ! 1) = wave_units (?h ! 0) \<and> flux_units (?h ! 1) = flux_units (?h ! 0))"
    using add_mutates_only_second_operand[OF l, of 1 "1/10000" 1 "1/10000"] ne ku kw kv kf
    by blast
  have c1: "wave_units (fst (add ?h 0 (Some 1)) ! 1) = um"
    and c2: "flux_units (fst (add ?h 0 (Some 1)) ! 1) = flam"
    and c3: "wave (fst (add ?h 0 (Some 1)) ! 1) = [115/100, 125/100, 135/100]"
    and c4: "flux (fst (add ?h 0 (Some 1)) ! 1) = [6, 6, 6]"
    and c5: "unc (fst (add ?h 0 (Some 1)) ! 1) = [6/10, 6/10, 6/10]"
    using t by (simp_all add: specA_def specB_far_def mk_spectrum_def)
  have c6: "\<not> same_curve (fst (add ?h 0 (Some 1)) ! 1) specB_far"
    using t d by (simp add: specA_def specB_far_def mk_spectrum_def)
  have c7: "same_curve (fst (add ?h 0 (Some 1)) ! 0) specA" using t by simp
  have c8: "snd (add ?h 0 (Some 1)) = Inr 2" "length (fst (add ?h 0 (Some 1))) = 4"
    using far_merge by simp_all
  show ?thesis using l ne ku kw kv kf u c1 c2 c3 c4 c5 c6 c7 c8 by blast
qed

text \<open>
  The claim of C5 as stated fails: with series B given in Angstrom and series A in
  micron, the merge leaves B in micron, its wavelengths rescaled.
\<close>

theorem add_converts_second_operand:
  "wave_units (fst (add [specA, specB_AA] 0 (Some 1)) ! 1) = um
   \<and> wave_units ([specA, specB_AA] ! 1) = AA
   \<and> wave (fst (add [specA, specB_AA] 0 (Some 1)) ! 1) = [115/100, 125/100, 135/100]
   \<and> wave ([specA, specB_AA] ! 1) = [11500, 12500, 13500]
   \<and> \<not> same_curve (fst (add [specA, specB_AA] 0 (Some 1)) ! 1) ([specA, specB_AA] ! 1)"
  using spec_example_merge
  by (simp add: specB_def specB_AA_def mk_spectrum_def same_curve_def um_def AA_def)

section \<open>synthetic_flux changes the receiver\<close>

lemmas syn_defs =
  synthetic_flux_def spectrum_q_def set_wave_units_def gradient_def interp_def interp1_def
  weighted_flux_def quadrature_def unit_to_def um_def AA_def flam_def Let_def

lemma set_wave_units_ok:
  assumes "unit_to wu um = Some ku" and "unit_to (wave_units s) wu = Some k" and "wave s \<noteq> []"
  shows "snd (set_wave_units s wu) = None
       \<and> wave_units (fst (set_wave_units s wu)) = wu
       \<and> wave (fst (set_wave_units s wu)) = map (\<lambda>x. x * k) (wave s)
       \<and> flux (fst (set_wave_units s wu)) = flux s
       \<and> unc (fst (set_wave_units s wu)) = unc s"
  using assms by (simp add: set_wave_units_def Let_def)

lemma synthetic_flux_receiver:
  assumes "bp_overlap bp (spectrum_q s) = Full \<or> (bp_overlap bp (spectrum_q s) = Partial \<and> force)"
  shows "fst (synthetic_flux s bp force) = fst (set_wave_units s (bp_wave_units bp))"
  using assms
  by (auto simp: synthetic_flux_def Let_def split: prod.splits option.splits sum.splits)

lemma synthetic_flux_no_coverage:
  assumes "\<not> (bp_overlap bp (spectrum_q s) = Full \<or> (bp_overlap bp (spectrum_q s) = Partial \<and> force))"
  shows "synthetic_flux s bp force = (s, Inr None)"
  using assms by (auto simp: synthetic_flux_def Let_def)

text \<open>
  C8.  \<open>synthetic_flux\<close> is not read-only.  When the bandpass reports full overlap, or
  partial overlap and \<open>force\<close> is set, and the units of the bandpass and of the spectrum
  are lengths and the spectrum has a sample, the receiver is left as the setter of the
  wavelength unit leaves it: its wavelength unit is the unit of the bandpass and its
  wavelengths are converted to it.  This is so whatever the rest of the call does; and
  for a bandpass of at least two samples with as many throughputs, of non-zero
  integrated throughput, on a spectrum whose three arrays have one length, the call
  returns a flux and an uncertainty, with the receiver so changed.
\<close>

theorem synthetic_flux_sets_wave_units:
  assumes ov: "bp_overlap bp (spectrum_q s) = Full \<or> (bp_overlap bp (spectrum_q s) = Partial \<and> force)"
    and bu: "unit_to (bp_wave_units bp) um = Some ku"
    and su: "unit_to (wave_units s) (bp_wave_units bp) = Some k"
    and ne: "wave s \<noteq> []"
  shows "fst (synthetic_flux s bp force) = fst (set_wave_units s (bp_wave_units bp))
       \<and> wave_units (fst (synthetic_flux s bp force)) = bp_wave_units bp
       \<and> wave (fst (synthetic_flux s bp force)) = map (\<lambda>x. x * k) (wave s)
       \<and> (2 \<le> length (bp_wave bp) \<and> length (bp_throughput bp) = length (bp_wave bp)
            \<and> trapz (bp_throughput bp) (bp_wave bp) \<noteq> 0
            \<and> length (flux s) = length (wave s) \<and> length (unc s) = length (wave s)
          \<longrightarrow> (\<exists>flx u. snd (synthetic_flux s bp force) = Inr (Some (flx, u))))"
proof -
  let ?s' = "fst (set_wave_units s (bp_wave_units bp))"
  have sw: "snd (set_wave_units s (bp_wave_units bp)) = None
       \<and> wave_units ?s' = bp_wave_units bp
       \<and> wave ?s' = map (\<lambda>x. x * k) (wave s)
       \<and> flux ?s' = flux s \<and> unc ?s' = unc s"
    by (rule set_wave_units_ok[OF bu su ne])
  have r: "fst (synthetic_flux s bp force) = ?s'"
    by (rule synthetic_flux_receiver[OF ov])
  have ret: "\<exists>flx u. snd (synthetic_flux s bp force) = Inr (Some (flx, u))"
    if wf: "2 \<le> length (bp_wave bp)" "length (bp_throughput bp) = length (bp_wave bp)"
      "trapz (bp_throughput bp) (bp_wave bp) \<noteq> 0"
      "length (flux s) = length (wave s)" "length (unc s) = length (wave s)"
  proof -
    obtain s' where eq: "set_wave_units s (bp_wave_units bp) = (s', None)" and s': "s' = ?s'"
      using sw by (metis prod.collapse)
    obtain g where g: "gradient (bp_wave bp) = Inr g"
      using wf(1) by (auto simp: gradient_def Let_def)
    obtain f where f: "interp (bp_wave bp) (wave ?s') (flux ?s') (Some 0) (Some 0) = Inr f"
      using sw ne wf(4) by (simp add: interp_def)
    obtain sf where sf: "interp (bp_wave bp) (wave ?s') (unc ?s') (Some 0) (Some 0) = Inr sf"
      using sw ne wf(5) by (simp add: interp_def)
    show ?thesis
      using ov eq g f sf wf(2,3) unfolding s'[symmetric]
      by (auto simp: synthetic_flux_def Let_def)
  qed
  show ?thesis using r sw ret by auto
qed

theorem synthetic_flux_sets_wave_units_witness:
  "bp_overlap bpJ (spectrum_q specA) = Full
   \<and> unit_to (bp_wave_units bpJ) um = Some (1 / 10000)
   \<and> unit_to (wave_units specA) (bp_wave_units bpJ) = Some 10000
   \<and> wave specA \<noteq> []
   \<and> wave_units specA = um
   \<and> wave_units (fst (synthetic_flux specA bpJ False)) = AA
   \<and> wave (fst (synthetic_flux specA bpJ False)) = [10000, 11000, 12000]
   \<and> snd (synthetic_flux specA bpJ False) = Inr (Some (5, sqrt 750000))"
proof -
  have ev: "synthetic_flux specA bpJ False =
      (specA\<lparr>wave := [10000, 11000, 12000], wmin := 100000000, wmax := 120000000,
              wave_units := AA\<rparr>, Inr (Some (5, sqrt 750000)))"
    by (simp add: syn_defs specA_def bpJ_def mk_spectrum_def)
  have h: "bp_overlap bpJ (spectrum_q specA) = Full
      \<or> (bp_overlap bpJ (spectrum_q specA) = Partial \<and> False)"
    by (simp add: bpJ_def)
  have bu: "unit_to (bp_wave_units bpJ) um = Some (1 / 10000)"
    by (simp add: bpJ_def unit_to_def um_def AA_def)
  have su: "unit_to (wave_units specA) (bp_wave_units bpJ) = Some 10000"
    by (simp add: bpJ_def specA_def mk_spectrum_def unit_to_def um_def AA_def)
  have ne: "wave specA \<noteq> []" by (simp add: specA_def mk_spectrum_def)
  have th: "wave_units (fst (synthetic_flux specA bpJ False)) = bp_wave_units bpJ"
    using synthetic_flux_sets_wave_units[OF h bu su ne] by blast
  have c1: "bp_overlap bpJ (spectrum_q specA) = Full" by (simp add: bpJ_def)
  have c2: "wave_units specA = um" by (simp add: specA_def mk_spectrum_def)
  have c3: "wave_units (fst (synthetic_flux specA bpJ False)) = AA"
    using th by (simp add: bpJ_def)
  have c4: "wave (fst (synthetic_flux specA bpJ False)) = [10000, 11000, 12000]"
    by (simp add: ev)
  have c5: "snd (synthetic_flux specA bpJ False) = Inr (Some (5, sqrt 750000))"
    by (simp add: ev)
  show ?thesis using c1 bu su ne c2 c3 c4 c5 by blast
qed

section \<open>norm_to_mags\<close>

lemmas norm_defs =
  compute_norm_def norm_to_mags_def trim_table_def keep_bands_def weighted_norm_def
  numerator_terms_def denominator_terms_def zero_variance_def scaled_args_def

lemma syn_rows_photN:
  "syn_rows False photN (specN, [], 0) = (specN\<lparr>wmin := 1, wmax := 4\<rparr>, Inr (entriesN, 3))"
  by (simp add: syn_defs specN_def photN_def mk_row_def bp1_def bp2_def mk_spectrum_def
      entriesN_def)

text \<open>
  C4.  The factor of \<open>norm_to_mags\<close>, evaluated for a flat spectrum of flux 10 and two
  rows: observed flux 10 in a band of FWHM 1, observed flux 20 in a band of FWHM 3,
  each with synthetic flux 10 and the same variances.  The code multiplies every term
  by the FWHM of the last row, which cancels: the factor is 3/2 and the returned flux
  is 15.  Weighted by each row's own FWHM, as the spec's formula has it, the factor
  is 7/4.
\<close>

theorem norm_uses_last_weight_for_every_row:
  "syn_rows False photN (specN, [], 0) = (specN\<lparr>wmin := 1, wmax := 4\<rparr>, Inr (entriesN, 3))
   \<and> map wgt entriesN = map (\<lambda>r. bp_FWHM (row_bandpass r)) photN
   \<and> compute_norm specN photN False [] [] = (specN\<lparr>wmin := 1, wmax := 4\<rparr>, Inr (3/2))
   \<and> spec_norm entriesN = 7/4
   \<and> norm_to_mags specN photN False [] [] =
       (specN\<lparr>wmin := 1, wmax := 4\<rparr>,
        Inr (mk_spectrum [1, 2, 3, 4] [15, 15, 15, 15] [3/2, 3/2, 3/2, 3/2]))"
proof -
  have t: "trim_table photN [] [] = photN"
    by (simp add: trim_table_def keep_bands_def photN_def mk_row_def)
  have w: "weighted_norm 3 entriesN = Inr (3/2)"
    by (simp add: weighted_norm_def numerator_terms_def denominator_terms_def
        zero_variance_def entriesN_def)
  have c: "compute_norm specN photN False [] [] = (specN\<lparr>wmin := 1, wmax := 4\<rparr>, Inr (3/2))"
    using t w syn_rows_photN by (simp add: compute_norm_def photN_def entriesN_def)
  have s: "spec_norm entriesN = 7/4"
    by (simp add: spec_norm_def numerator_terms_def denominator_terms_def entriesN_def)
  have n: "spectrum_init (scaled_args (specN\<lparr>wmin := 1, wmax := 4\<rparr>) (3/2)) =
      Inr (mk_spectrum [1, 2, 3, 4] [15, 15, 15, 15] [3/2, 3/2, 3/2, 3/2])"
    by (simp add: scaled_args_def init_defs specN_def mk_spectrum_def)
  have m: "map wgt entriesN = map (\<lambda>r. bp_FWHM (row_bandpass r)) photN"
    by (simp add: entriesN_def photN_def mk_row_def bp1_def bp2_def)
  show ?thesis using c s n m syn_rows_photN by (simp add: norm_to_mags_def)
qed

section \<open>flux_calibrate\<close>

lemma snr_68: "\<not> 5 \<le> 40 / sqrt 68"
proof -
  have "sqrt (8\<^sup>2) < sqrt 68" by (subst real_sqrt_less_iff) simp
  then have "8 < sqrt 68" by simp
  then show ?thesis by (simp add: field_simps)
qed

text \<open>
  C2.  \<open>flux_calibrate\<close> of value 10 with uncertainty 1 at distance 20 with
  uncertainty 2, to the target distance 10.  The flux is 40.  The uncertainty is the
  quadrature sum of \<open>1 * 20 / 10 = 2\<close> and \<open>2 * 10 * (2 * 20 / 10^2) = 8\<close>, the square
  root of 68; with the first term scaled by \<open>(20/10)^2\<close> it would be the square root
  of 80.
\<close>

theorem flux_calibrate_first_term_not_squared:
  "flux_calibrate spec10 (20, 2) 10 None =
     Inr (mk_spectrum [1, 11/10, 12/10] [40, 40, 40] [sqrt 68, sqrt 68, sqrt 68])
   \<and> sqrt 68 = sqrt ((1 * 20 / 10)\<^sup>2 + (2 * 10 * (2 * 20 / 10\<^sup>2))\<^sup>2)
   \<and> sqrt 68 \<noteq> sqrt ((1 * (20 / 10)\<^sup>2)\<^sup>2 + (2 * 10 * 2 * 20 / 10\<^sup>2)\<^sup>2)"
  using snr_68
  by (simp add: flux_calibrate_def init_defs spec10_def mk_spectrum_def power2_eq_square)

section \<open>The bolometric magnitude\<close>

lemma rint_close: "\<bar>of_int (rint x) - x\<bar> \<le> 1/2"
proof -
  have "of_int \<lfloor>x\<rfloor> \<le> x" and "x < of_int \<lfloor>x\<rfloor> + 1" by linarith+
  then show ?thesis
    by (auto simp: rint_def Let_def)
qed

lemma round3_close: "\<bar>round3 x - x\<bar> \<le> 1/2000"
proof -
  have "\<bar>of_int (rint (x * 1000)) - x * 1000\<bar> \<le> 1/2" by (rule rint_close)
  then have "\<bar>(of_int (rint (x * 1000)) - x * 1000) / 1000\<bar> \<le> (1/2) / 1000"
    by (simp add: abs_divide)
  then show ?thesis by (simp add: round3_def diff_divide_distrib)
qed

lemma rint_of_int: "rint (of_int k) = k"
  by (simp add: rint_def)

lemma ln_10_gt_2: "2 < ln (10::real)"
proof -
  have "exp (2::real) = exp 1 ^ 2" using exp_double[of "1::real"] by simp
  also have "\<dots> \<le> 3\<^sup>2" by (rule power_mono) (simp_all add: exp_le)
  finally have "exp 2 < (10::real)" by simp
  then have "exp (2::real) < exp (ln 10)" by simp
  then show ?thesis by (simp only: exp_less_cancel_iff)
qed

lemma round3_small_uncertainty: "round3 (2.5 / ln 10 * ((4/10000) / 1)) = 0"
proof -
  have p: "0 < 1 / ln (10::real)" using ln_10_gt_2 by simp
  have h: "1 / ln (10::real) < 1/2" using ln_10_gt_2 by (simp add: field_simps)
  have fl: "\<lfloor>1 / ln (10::real)\<rfloor> = 0"
    by (rule floor_unique) (use p h in simp_all)
  have "rint (1 / ln 10) = 0" using fl h by (simp add: rint_def Let_def)
  moreover have "2.5 / ln 10 * ((4/10000) / 1) * 1000 = 1 / ln (10::real)" by simp
  ultimately show ?thesis by (simp add: round3_def)
qed

lemma round3_zero_point: "round3 (- 2.5 * log 10 1 - 11.482) = - (11482 / 1000)"
proof -
  have "(- 2.5 * log 10 1 - 11.482) * 1000 = of_int (- 11482)" by simp
  then have "rint ((- 2.5 * log 10 1 - 11.482) * 1000) = - 11482"
    by (simp only: rint_of_int)
  then show ?thesis by (simp add: round3_def)
qed

text \<open>
  C7, as amended.  When the bolometric flux pair \<open>(f, sf)\<close> is present, or is computed
  by \<open>get_fbol\<close> without error, and \<open>f\<close> is positive, \<open>get_mbol\<close> stores the apparent
  bolometric magnitude \<open>-2.5 log10 f - 11.482\<close> rounded to three decimals and the
  uncertainty \<open>(2.5 / ln 10) (sf / f)\<close> rounded to three decimals; each stored number is
  within 0.0005 of its formula.
\<close>

theorem get_mbol_rounds:
  assumes "(if fbol s = None then get_fbol s erg_s_cm2 else (s, None)) = (s1, None)"
    and "fbol s1 = Some (f, sf)" and "0 < f"
  shows "get_mbol s =
           (s1\<lparr>mbol := Some (round3 (- 2.5 * log 10 f - 11.482),
                               round3 ((2.5 / ln 10) * (sf / f)))\<rparr>, None)
       \<and> \<bar>round3 (- 2.5 * log 10 f - 11.482) - (- 2.5 * log 10 f - 11.482)\<bar> \<le> 1/2000
       \<and> \<bar>round3 ((2.5 / ln 10) * (sf / f)) - (2.5 / ln 10) * (sf / f)\<bar> \<le> 1/2000"
  using assms round3_close by (simp add: get_mbol_def)

theorem get_mbol_rounds_witness:
  "(if fbol sedA = None then get_fbol sedA erg_s_cm2 else (sedA, None)) =
      (sedA\<lparr>fbol := Some (10000, sqrt (3/400) * 10000)\<rparr>, None)
   \<and> fbol (sedA\<lparr>fbol := Some (10000, sqrt (3/400) * 10000)\<rparr>) = Some (10000, sqrt (3/400) * 10000)
   \<and> (0::real) < 10000
   \<and> get_mbol sedA =
       (sedA\<lparr>fbol := Some (10000, sqrt (3/400) * 10000),
              mbol := Some (round3 (- 2.5 * log 10 10000 - 11.482),
                            round3 ((2.5 / ln 10) * (sqrt (3/400) * 10000 / 10000)))\<rparr>, None)"
proof -
  have i: "integral specA erg_s_cm2 = Inr (10000, sqrt (3/400) * 10000)"
    by (simp add: integral_def gradient_def unit_to_def erg_s_cm2_def um_def flam_def
        specA_def mk_spectrum_def Let_def power2_eq_square)
  have g: "(if fbol sedA = None then get_fbol sedA erg_s_cm2 else (sedA, None)) =
      (sedA\<lparr>fbol := Some (10000, sqrt (3/400) * 10000)\<rparr>, None)"
    using i by (simp add: get_fbol_def sedA_def sed1_def)
  have f: "fbol (sedA\<lparr>fbol := Some (10000, sqrt (3/400) * 10000)\<rparr>)
      = Some (10000, sqrt (3/400) * 10000)" by simp
  from get_mbol_rounds[OF g f] g show ?thesis by simp
qed

text \<open>
  The claim of C7 as stated fails: for the flux 1 with uncertainty 0.0004 the formula
  gives the uncertainty \<open>0.001 / ln 10\<close>, which is not zero, and the code stores 0.
\<close>

theorem get_mbol_stores_rounded_values:
  "get_mbol sed1 = (sed1\<lparr>mbol := Some (- (11482 / 1000), 0)\<rparr>, None)
   \<and> (2.5 / ln 10) * ((4/10000) / 1) \<noteq> (0::real)
   \<and> snd (the (mbol (fst (get_mbol sed1)))) \<noteq> (2.5 / ln 10) * ((4/10000) / 1)"
proof -
  have "get_mbol sed1 = (sed1\<lparr>mbol := Some (round3 (- 2.5 * log 10 1 - 11.482),
                               round3 ((2.5 / ln 10) * ((4/10000) / 1)))\<rparr>, None)"
    by (simp add: get_mbol_def sed1_def)
  moreover have "ln (10::real) \<noteq> 0" using ln_10_gt_2 by simp
  ultimately show ?thesis
    using round3_small_uncertainty round3_zero_point by simp
qed

section \<open>add_photometry\<close>

lemma pick_not_mag: "pick xs idx \<noteq> Inl MagTypeError"
  by (simp add: pick_def)

lemma pick3_not_mag: "pick3 d idx \<noteq> Inl MagTypeError"
  by (auto simp: pick3_def pick_def split: prod.splits sum.splits if_splits)

lemma manual_trim_not_mag: "manual_trim ws d \<noteq> Inl MagTypeError"
proof (induction ws d rule: manual_trim.induct)
  case (1 d)
  show ?case by simp
next
  case (2 mn mx ws w f u)
  then show ?case
    using pick3_not_mag by (auto simp: Let_def split: sum.splits)
qed

lemma set_wave_units_not_mag: "snd (set_wave_units s wu) \<noteq> Some MagTypeError"
  by (auto simp: set_wave_units_def Let_def split: option.splits)

lemma spectrum_init_not_mag: "spectrum_init a \<noteq> Inl MagTypeError"
proof
  assume a: "spectrum_init a = Inl MagTypeError"
  have sw: "\<And>s wu x. set_wave_units s wu = (x, Some MagTypeError) \<Longrightarrow> False"
    using set_wave_units_not_mag by (metis snd_conv)
  from a show False
    using pick3_not_mag manual_trim_not_mag sw
    by (auto simp: spectrum_init_def scrub_def positive_prefix_def Let_def
        split: prod.splits option.splits sum.splits if_splits)
qed

lemma flux_of_row_key:
  "flux_of_row co fu ab r = Inr r' \<Longrightarrow> row_key r' = row_key r"
  by (auto simp: flux_of_row_def row_key_def split: option.splits prod.splits if_splits)

lemma flux_of_row_not_mag: "flux_of_row co fu ab r \<noteq> Inl MagTypeError"
  by (auto simp: flux_of_row_def split: option.splits prod.splits)

lemma flux_loop_keys:
  "map row_key (fst (flux_loop co fu ab rs)) = map row_key rs
   \<and> snd (flux_loop co fu ab rs) \<noteq> Some MagTypeError"
proof (induction rs)
  case Nil
  show ?case by simp
next
  case (Cons r rs)
  show ?case
  proof (cases "flux_of_row co fu ab r")
    case (Inl e)
    then show ?thesis using flux_of_row_not_mag[of co fu ab r] by auto
  next
    case (Inr r')
    then show ?thesis
      using Cons flux_of_row_key[OF Inr] by (auto split: prod.splits)
  qed
qed

lemma convert_columns_keys:
  "map row_key (photometry (fst (convert_columns s))) = map row_key (photometry s)
   \<and> snd (convert_columns s) \<noteq> Some MagTypeError"
  by (auto simp: convert_columns_def Let_def row_key_def split: option.splits)

lemma zip_magnitudes_keys:
  assumes "length M = length rows" and "length Mu = length rows"
  shows "map row_key (map (\<lambda>(r, m, mu). r\<lparr>abs_magnitude := m, abs_magnitude_unc := mu\<rparr>)
            (zip rows (zip M Mu))) = map row_key rows"
  using assms
proof (induction rows arbitrary: M Mu)
  case Nil
  show ?case by simp
next
  case (Cons r rows)
  then obtain m M' mu Mu' where "M = m # M'" "Mu = mu # Mu'"
    by (metis length_Suc_conv)
  with Cons show ?case by (simp add: row_key_def)
qed

lemma calibrate_absolute_keys:
  "map row_key (photometry (fst (calibrate_absolute co s))) = map row_key (photometry s)
   \<and> snd (calibrate_absolute co s) \<noteq> Some MagTypeError"
proof (cases "sed_distance s")
  case None
  then show ?thesis by (simp add: calibrate_absolute_def)
next
  case (Some dd)
  obtain d sd where dd: "dd = (d, sd)" by (cases dd)
  show ?thesis
  proof (cases "co_flux_calibrate co (map app_magnitude (photometry s)) d
                  (map app_magnitude_unc (photometry s)) sd")
    case None
    with Some dd show ?thesis by (simp add: calibrate_absolute_def)
  next
    case (Some MM)
    obtain M Mu where MM: "MM = (M, Mu)" by (cases MM)
    show ?thesis
    proof (cases "length M = length (photometry s) \<and> length Mu = length (photometry s)")
      case True
      let ?rows = "map (\<lambda>(r, m, mu). r\<lparr>abs_magnitude := m, abs_magnitude_unc := mu\<rparr>)
                            (zip (photometry s) (zip M Mu))"
      have k: "map row_key ?rows = map row_key (photometry s)"
        using True zip_magnitudes_keys by blast
      have l: "map row_key (fst (flux_loop co (sed_flux_units s) True ?rows)) = map row_key ?rows
          \<and> snd (flux_loop co (sed_flux_units s) True ?rows) \<noteq> Some MagTypeError"
        by (rule flux_loop_keys)
      show ?thesis
        using True Some MM \<open>sed_distance s = Some dd\<close> dd k l
        by (auto simp: calibrate_absolute_def split: prod.splits)
    next
      case False
      with Some MM \<open>sed_distance s = Some dd\<close> dd show ?thesis
        by (auto simp: calibrate_absolute_def)
    qed
  qed
qed

lemma sort_photometry_keys:
  "mset (map row_key (photometry (sort_photometry s))) = mset (map row_key (photometry s))"
  by (simp add: sort_photometry_def)

lemma make_phot_SED_keys:
  "mset (map row_key (photometry (fst (make_phot_SED co s)))) = mset (map row_key (photometry s))
   \<and> snd (make_phot_SED co s) \<noteq> Some MagTypeError"
  using spectrum_init_not_mag
  by (auto simp: make_phot_SED_def Let_def sort_photometry_def
      split: sum.splits option.splits prod.splits)

lemma calibrate_photometry_keys:
  "mset (map row_key (photometry (fst (calibrate_photometry co s)))) = mset (map row_key (photometry s))
   \<and> snd (calibrate_photometry co s) \<noteq> Some MagTypeError"
proof -
  let ?s = "sort_photometry s"
  have k0: "mset (map row_key (photometry ?s)) = mset (map row_key (photometry s))"
    by (rule sort_photometry_keys)
  show ?thesis
  proof (cases "photometry ?s = []")
    case True
    then show ?thesis using k0 by (simp add: calibrate_photometry_def Let_def)
  next
    case False
    obtain s1 e1 where c: "convert_columns ?s = (s1, e1)" by (cases "convert_columns ?s")
    have k1: "map row_key (photometry s1) = map row_key (photometry ?s)" "e1 \<noteq> Some MagTypeError"
      using convert_columns_keys[of ?s] c by simp_all
    show ?thesis
    proof (cases e1)
      case (Some e)
      then show ?thesis using False c k0 k1 by (simp add: calibrate_photometry_def Let_def)
    next
      case None
      obtain rows e2 where f: "flux_loop co (sed_flux_units s1) False (photometry s1) = (rows, e2)"
        by (cases "flux_loop co (sed_flux_units s1) False (photometry s1)")
      have k2: "map row_key rows = map row_key (photometry s1)" "e2 \<noteq> Some MagTypeError"
        using flux_loop_keys[of co "sed_flux_units s1" False "photometry s1"] f by simp_all
      show ?thesis
      proof (cases e2)
        case (Some e)
        then show ?thesis
          using False c None f k0 k1 k2 by (simp add: calibrate_photometry_def Let_def)
      next
        case n2: None
        let ?s2 = "s1\<lparr>photometry := rows\<rparr>"
        obtain s3 e3 where a: "calibrate_absolute co ?s2 = (s3, e3)"
          by (cases "calibrate_absolute co ?s2")
        have k3: "map row_key (photometry s3) = map row_key rows" "e3 \<noteq> Some MagTypeError"
          using calibrate_absolute_keys[of co ?s2] a by simp_all
        show ?thesis
        proof (cases e3)
          case (Some e)
          then show ?thesis
            using False c None f n2 a k0 k1 k2 k3 by (simp add: calibrate_photometry_def Let_def)
        next
          case n3: None
          have "calibrate_photometry co s = make_phot_SED co s3"
            using False c None f n2 a n3 by (simp add: calibrate_photometry_def Let_def)
          then show ?thesis
            using make_phot_SED_keys[of co s3] k0 k1 k2 k3 by simp
        qed
      qed
    qed
  qed
qed

text \<open>
  C9.  \<open>add_photometry\<close> ends in its own type error exactly when neither the magnitude
  nor its uncertainty is a float, and then it leaves the SED as it was.  Otherwise, for
  a band the bandpass lookup knows, the table holds one row more afterwards, with the
  band and the two magnitudes given (\<open>None\<close> stored as \<open>nan\<close>), whatever the calibration
  that follows does; this holds for a float magnitude with the uncertainty \<open>None\<close>.
\<close>

theorem add_photometry_guard:
  "(snd (add_photometry co s b mag mag_unc) = Some MagTypeError
      \<longleftrightarrow> \<not> is_float mag \<and> \<not> is_float mag_unc)
   \<and> (\<not> is_float mag \<and> \<not> is_float mag_unc \<longrightarrow> fst (add_photometry co s b mag mag_unc) = s)
   \<and> ((is_float mag \<or> is_float mag_unc) \<and> co_bandpass co b = Some bp
        \<and> unit_to um (eff_unit s) = Some k
      \<longrightarrow> mset (map row_key (photometry (fst (add_photometry co s b mag mag_unc))))
            = mset (map row_key (photometry s)) + {#(b, to_column mag, to_column mag_unc)#})"
proof -
  have g: "\<not> is_float mag \<and> \<not> is_float mag_unc
      \<Longrightarrow> add_photometry co s b mag mag_unc = (s, Some MagTypeError)"
    by (simp add: add_photometry_def)
  have n: "snd (add_photometry co s b mag mag_unc) \<noteq> Some MagTypeError"
    if "is_float mag \<or> is_float mag_unc"
    using that calibrate_photometry_keys
    by (auto simp: add_photometry_def split: option.splits)
  have r: "mset (map row_key (photometry (fst (add_photometry co s b mag mag_unc))))
            = mset (map row_key (photometry s)) + {#(b, to_column mag, to_column mag_unc)#}"
    if "is_float mag \<or> is_float mag_unc" "co_bandpass co b = Some bp"
      "unit_to um (eff_unit s) = Some k"
  proof -
    have "add_photometry co s b mag mag_unc =
        calibrate_photometry co (s\<lparr>photometry := photometry s @ [new_row b bp k mag mag_unc]\<rparr>)"
      using that by (auto simp: add_photometry_def)
    then show ?thesis
      using calibrate_photometry_keys[of co "s\<lparr>photometry := photometry s @ [new_row b bp k mag mag_unc]\<rparr>"]
      by (simp add: row_key_def new_row_def)
  qed
  show ?thesis using g n r by auto
qed


lemma add_photometry_example:
  "add_photometry co1 sedP ''K'' (PyFloat (123/10)) PyNone =
     (sedP\<lparr>photometry :=
              [(mk_row ''J'' bp1 100 10)\<lparr>app_magnitude := Some (123/10),
                   app_magnitude_unc := Some (1/10), abs_magnitude := Some (123/10),
                   abs_magnitude_unc := Some (1/10), abs_flux := Some 100,
                   abs_flux_unc := Some 10\<rparr>,
               (new_row ''K'' bp2 1 (PyFloat (123/10)) PyNone)\<lparr>app_flux := Some 100,
                   app_flux_unc := None, abs_magnitude := Some (123/10),
                   abs_magnitude_unc := None, abs_flux := Some 100, abs_flux_unc := None\<rparr>],
            app_phot_SED := Some (mk_spectrum [3/2] [100] [10]),
            abs_phot_SED := Some ([Some 100], [Some 10])\<rparr>, None)"
  by (simp add: add_photometry_def calibrate_photometry_def sort_photometry_def
      convert_columns_def flux_of_row_def calibrate_absolute_def make_phot_SED_def
      positive_rows_def new_row_def co1_def sedP_def sed1_def mk_row_def bp1_def bp2_def
      init_defs mk_spectrum_def)

theorem add_photometry_guard_witness:
  "is_float (PyFloat (123/10)) \<and> \<not> is_float PyNone \<and> \<not> is_float (PyInt 12)
   \<and> co_bandpass co1 ''K'' = Some bp2 \<and> unit_to um (eff_unit sedP) = Some 1
   \<and> snd (add_photometry co1 sedP ''K'' (PyFloat (123/10)) PyNone) = None
   \<and> mset (map row_key (photometry (fst (add_photometry co1 sedP ''K'' (PyFloat (123/10)) PyNone))))
       = {#(''J'', Some (123/10), Some (1/10)), (''K'', Some (123/10), None)#}
   \<and> add_photometry co1 sedP ''K'' (PyInt 12) PyNone = (sedP, Some MagTypeError)"
proof -
  have b: "co_bandpass co1 ''K'' = Some bp2" by (simp add: co1_def)
  have u: "unit_to um (eff_unit sedP) = Some 1"
    by (simp add: sedP_def sed1_def unit_to_def um_def)
  have k: "mset (map row_key (photometry sedP)) = {#(''J'', Some (123/10), Some (1/10))#}"
    by (simp add: sedP_def sed1_def mk_row_def row_key_def)
  have g: "mset (map row_key (photometry (fst (add_photometry co1 sedP ''K'' (PyFloat (123/10)) PyNone))))
       = mset (map row_key (photometry sedP)) + {#(''K'', to_column (PyFloat (123/10)), to_column PyNone)#}"
    using add_photometry_guard[of co1 sedP "''K''" "PyFloat (123/10)" PyNone bp2 1] b u by simp
  have n: "snd (add_photometry co1 sedP ''K'' (PyFloat (123/10)) PyNone) = None"
    by (simp add: add_photometry_example)
  have e: "add_photometry co1 sedP ''K'' (PyInt 12) PyNone = (sedP, Some MagTypeError)"
    by (simp add: add_photometry_def)
  show ?thesis using b u k g n e by simp
qed

section \<open>group_spectra returns a partition\<close>

lemma absorb_inv:
  assumes "absorb sp S ns (grp, idx) = Inr (grp', idx')"
    and "distinct idx" and "set idx \<subseteq> {0..<length sp}" and "set ns \<subseteq> {0..<length sp}"
  shows "distinct idx' \<and> set idx' \<subseteq> {0..<length sp} \<and> set idx \<subseteq> set idx'
       \<and> mset grp' + mset idx = mset grp + mset idx'"
  using assms
proof (induction ns arbitrary: grp idx)
  case Nil
  then show ?case by simp
next
  case (Cons n ns)
  show ?case
  proof (cases "n \<in> set idx")
    case True
    with Cons.prems have "absorb sp S ns (grp, idx) = Inr (grp', idx')" by simp
    from Cons.IH[OF this] Cons.prems show ?thesis by simp
  next
    case False
    note nin = this
    show ?thesis
    proof (cases "wave (sp ! n) = []")
      case True
      with nin Cons.prems show ?thesis by simp
    next
      case False
      show ?thesis
      proof (cases "overlaps (wave S) (wave (sp ! n))")
        case True
        with nin False Cons.prems have a: "absorb sp S ns (grp @ [n], idx @ [n]) = Inr (grp', idx')" by simp
        have "distinct (idx @ [n])" using nin Cons.prems by simp
        moreover have "set (idx @ [n]) \<subseteq> {0..<length sp}" using Cons.prems by simp
        moreover have "set ns \<subseteq> {0..<length sp}" using Cons.prems by simp
        ultimately have "distinct idx' \<and> set idx' \<subseteq> {0..<length sp} \<and> set (idx @ [n]) \<subseteq> set idx'
            \<and> mset grp' + mset (idx @ [n]) = mset (grp @ [n]) + mset idx'"
          using Cons.IH[OF a] by blast
        then show ?thesis by (auto simp: ac_simps)
      next
        case ov: False
        with nin False Cons.prems have "absorb sp S ns (grp, idx) = Inr (grp', idx')" by simp
        from Cons.IH[OF this] Cons.prems show ?thesis by simp
      qed
    qed
  qed
qed

lemma absorb_total:
  assumes "list_all (\<lambda>s. wave s \<noteq> []) sp" and "set ns \<subseteq> {0..<length sp}"
  shows "\<exists>r. absorb sp S ns (grp, idx) = Inr r"
  using assms
proof (induction ns arbitrary: grp idx)
  case Nil
  then show ?case by simp
next
  case (Cons n ns)
  then have "wave (sp ! n) \<noteq> []" by (simp add: list_all_length)
  with Cons show ?case by simp
qed

lemma group_loop_inv:
  assumes "group_loop sp Ns (grps, idx) = Inr (grps', idx')"
    and "distinct idx" and "set idx \<subseteq> {0..<length sp}" and "set Ns \<subseteq> {0..<length sp}"
    and "mset (concat grps) = mset idx"
  shows "distinct idx' \<and> set idx' \<subseteq> {0..<length sp} \<and> set idx \<union> set Ns \<subseteq> set idx'
       \<and> mset (concat grps') = mset idx'"
  using assms
proof (induction Ns arbitrary: grps idx)
  case Nil
  then show ?case by simp
next
  case (Cons N Ns)
  show ?case
  proof (cases "N \<in> set idx")
    case True
    with Cons.prems have "group_loop sp Ns (grps, idx) = Inr (grps', idx')" by simp
    from Cons.IH[OF this] Cons.prems True show ?thesis by auto
  next
    case False
    with Cons.prems obtain g i where
      ab: "absorb sp (sp ! N) [0..<length sp] ([N], idx @ [N]) = Inr (g, i)"
      and gl: "group_loop sp Ns (grps @ [g], i) = Inr (grps', idx')"
      by (auto split: sum.splits)
    have d: "distinct (idx @ [N])" using False Cons.prems by simp
    have s: "set (idx @ [N]) \<subseteq> {0..<length sp}" using Cons.prems by simp
    have inv: "distinct i \<and> set i \<subseteq> {0..<length sp} \<and> set (idx @ [N]) \<subseteq> set i
       \<and> mset g + mset (idx @ [N]) = mset [N] + mset i"
      using absorb_inv[OF ab d s] by simp
    then have m: "mset (concat (grps @ [g])) = mset i"
      using Cons.prems(5) by (simp add: ac_simps)
    have "distinct idx' \<and> set idx' \<subseteq> {0..<length sp} \<and> set i \<union> set Ns \<subseteq> set idx'
       \<and> mset (concat grps') = mset idx'"
      using Cons.IH[OF gl _ _ _ m] inv Cons.prems by simp
    with inv show ?thesis by auto
  qed
qed

lemma group_loop_total:
  assumes "list_all (\<lambda>s. wave s \<noteq> []) sp" and "set Ns \<subseteq> {0..<length sp}"
  shows "\<exists>r. group_loop sp Ns (grps, idx) = Inr r"
  using assms
proof (induction Ns arbitrary: grps idx)
  case Nil
  then show ?case by simp
next
  case (Cons N Ns)
  obtain g i where "absorb sp (sp ! N) [0..<length sp] ([N], idx @ [N]) = Inr (g, i)"
    using absorb_total[OF Cons.prems(1), of "[0..<length sp]"] by fastforce
  with Cons show ?case by simp
qed

lemma group_spectra_idx_partition:
  assumes "group_spectra_idx sp = Inr gs"
  shows "mset (concat gs) = mset [0..<length sp]"
proof -
  from assms obtain idx where gl: "group_loop sp [0..<length sp] ([], []) = Inr (gs, idx)"
    by (auto simp: group_spectra_idx_def split: sum.splits)
  have inv: "distinct idx \<and> set idx \<subseteq> {0..<length sp} \<and> set [] \<union> set [0..<length sp] \<subseteq> set idx
       \<and> mset (concat gs) = mset idx"
    using group_loop_inv[OF gl] by simp
  then have "set idx = {0..<length sp}" by auto
  with inv have "mset idx = mset [0..<length sp]"
    by (metis distinct_upt set_eq_iff_mset_eq_distinct set_upt)
  with inv show ?thesis by simp
qed

text \<open>
  C10.  When every input spectrum has at least one sample, \<open>group_spectra\<close> returns, and
  its groups partition the input: every position of the input list is in exactly one
  group, the groups together hold the input spectra with their multiplicities, and
  their sizes add up to the length of the input.
\<close>

theorem group_spectra_partition:
  assumes "list_all (\<lambda>s. wave s \<noteq> []) sp"
  shows "\<exists>gs. group_spectra_idx sp = Inr gs
            \<and> group_spectra sp = Inr (map (map (\<lambda>i. sp ! i)) gs)
            \<and> mset (concat gs) = mset [0..<length sp]
            \<and> mset (concat (map (map (\<lambda>i. sp ! i)) gs)) = mset sp
            \<and> sum_list (map length (map (map (\<lambda>i. sp ! i)) gs)) = length sp"
proof -
  obtain r where "group_loop sp [0..<length sp] ([], []) = Inr r"
    using group_loop_total[OF assms, of "[0..<length sp]" "[]" "[]"] by auto
  then obtain gs where gs: "group_spectra_idx sp = Inr gs"
    by (cases r) (simp add: group_spectra_idx_def)
  have p: "mset (concat gs) = mset [0..<length sp]"
    by (rule group_spectra_idx_partition[OF gs])
  have c: "concat (map (map (\<lambda>i. sp ! i)) gs) = map (\<lambda>i. sp ! i) (concat gs)"
    by (simp add: map_concat)
  have "mset (map (\<lambda>i. sp ! i) (concat gs)) = image_mset (\<lambda>i. sp ! i) (mset [0..<length sp])"
    using p by (metis mset_map)
  also have "\<dots> = mset (map (\<lambda>i. sp ! i) [0..<length sp])" by simp
  also have "\<dots> = mset sp" by (simp add: map_nth)
  finally have m: "mset (concat (map (map (\<lambda>i. sp ! i)) gs)) = mset sp" using c by simp
  have "sum_list (map length (map (map (\<lambda>i. sp ! i)) gs)) = length (concat (map (map (\<lambda>i. sp ! i)) gs))"
    by (simp add: length_concat)
  also have "\<dots> = length sp" using m by (metis size_mset)
  finally show ?thesis using gs p m by (simp add: group_spectra_def)
qed

theorem group_spectra_partition_witness:
  "list_all (\<lambda>s. wave s \<noteq> []) [specA, specC, specB]
   \<and> group_spectra_idx [specA, specC, specB] = Inr [[0, 2], [1]]
   \<and> group_spectra [specA, specC, specB] = Inr [[specA, specB], [specC]]
   \<and> mset (concat [[0, 2], [1::nat]]) = mset [0..<length [specA, specC, specB]]"
proof -
  have h: "list_all (\<lambda>s. wave s \<noteq> []) [specA, specC, specB]"
    by (simp add: specA_def specB_def specC_def mk_spectrum_def)
  have e: "group_spectra_idx [specA, specC, specB] = Inr [[0, 2], [1]]"
    by (simp add: group_spectra_idx_def overlaps_def any_idx_def np_where_def
        specA_def specB_def specC_def mk_spectrum_def)
  from group_spectra_partition[OF h] e show ?thesis
    using h by auto
qed

end
